theory Spec2Isabelle
  imports Complex_Main "HOL-Library.Char_ord" "HOL-Library.List_Lexorder" "HOL-Library.Option_ord"
begin

section \<open>Rows of the two sources\<close>

text \<open>
  The program \<^verbatim>\<open>etl.py\<close> reads two collections of JSON records with a fixed schema in
  which every field is nullable. A record that has been read is modelled as an Isabelle
  record whose fields are options, \<open>None\<close> being SQL's null. Field names are the column
  names of \<^verbatim>\<open>song_schema\<close> and \<^verbatim>\<open>log_schema\<close>, except that the log's column \<^verbatim>\<open>method\<close>
  is the field \<open>http_method\<close>. \<^verbatim>\<open>FloatType\<close> columns are carried as reals: the program
  never computes with them and never compares them. \<^verbatim>\<open>IntegerType\<close> and \<^verbatim>\<open>LongType\<close> columns
  are integers; the program does no arithmetic on them that could overflow.
\<close>

record song_record =
  artist_id :: "string option"
  artist_latitude :: "real option"
  artist_location :: "string option"
  artist_longitude :: "real option"
  artist_name :: "string option"
  duration :: "real option"
  num_songs :: "int option"
  song_id :: "string option"
  title :: "string option"
  year :: "int option"

record log_record =
  artist :: "string option"
  auth :: "string option"
  firstName :: "string option"
  gender :: "string option"
  itemInSession :: "int option"
  lastName :: "string option"
  level :: "string option"
  location :: "string option"
  http_method :: "string option"
  page :: "string option"
  registration :: "int option"
  sessionId :: "int option"
  song :: "string option"
  status :: "int option"
  ts :: "int option"
  userAgent :: "string option"
  userId :: "int option"

section \<open>Rows of the five output tables\<close>

text \<open>Songs: \<^verbatim>\<open>df.select('song_id','artist_id','title','year','duration')\<close>.\<close>

record songs_row =
  s_song_id :: "string option"
  s_artist_id :: "string option"
  s_title :: "string option"
  s_year :: "int option"
  s_duration :: "real option"

text \<open>Artists: \<^verbatim>\<open>df.select('artist_id','artist_name','artist_location',
  'artist_latitude','artist_longitude','num_songs')\<close>.\<close>

record artists_row =
  a_artist_id :: "string option"
  a_artist_name :: "string option"
  a_artist_location :: "string option"
  a_artist_latitude :: "real option"
  a_artist_longitude :: "real option"
  a_num_songs :: "int option"

text \<open>Users: \<^verbatim>\<open>df.select('userId','firstName','lastName','gender','level')\<close>.\<close>

record users_row =
  u_userId :: "int option"
  u_firstName :: "string option"
  u_lastName :: "string option"
  u_gender :: "string option"
  u_level :: "string option"

text \<open>
  A Python \<^verbatim>\<open>datetime\<close> without time zone: the wall-clock reading that
  \<^verbatim>\<open>datetime.fromtimestamp\<close> returns.
\<close>

record datetime =
  dt_year :: int
  dt_month :: int
  dt_day :: int
  dt_hour :: int
  dt_minute :: int
  dt_second :: int
  dt_microsecond :: int

text \<open>
  Time: column \<^verbatim>\<open>ts\<close> and the seven columns added by \<^verbatim>\<open>withColumn\<close>. \<^verbatim>\<open>hour\<close> returns an
  integer column, \<^verbatim>\<open>date_format\<close> a string column.
\<close>

record time_row =
  t_ts :: "int option"
  t_datetime :: datetime
  t_hour :: int
  t_year :: string
  t_month :: string
  t_week :: string
  t_day :: string
  t_weekday :: string

text \<open>The projection \<^verbatim>\<open>songplays\<close> of line 145, before the join with the Time table.\<close>

record songplay =
  sp_songplay_id :: int
  sp_start_time :: "int option"
  sp_user_id :: "int option"
  sp_level :: "string option"
  sp_song_id :: "string option"
  sp_artist_id :: "string option"
  sp_session_id :: "int option"
  sp_location :: "string option"
  sp_user_agent :: "string option"

text \<open>Songplays as written: the nine columns above and \<^verbatim>\<open>year\<close>, \<^verbatim>\<open>month\<close> of the Time table.\<close>

record songplays_row =
  f_songplay_id :: int
  f_start_time :: "int option"
  f_user_id :: "int option"
  f_level :: "string option"
  f_song_id :: "string option"
  f_artist_id :: "string option"
  f_session_id :: "int option"
  f_location :: "string option"
  f_user_agent :: "string option"
  f_year :: string
  f_month :: string

section \<open>The engine\<close>

text \<open>
  What the program leaves to Spark and to the host is a parameter of the model, so that a
  theorem quantified over it holds whatever the engine does:
  \<^item> \<open>pick_*\<close>: which row of a group of duplicates \<^verbatim>\<open>dropDuplicates\<close> retains (the
    index into the group, taken modulo its size), one choice function per call site;
  \<^item> \<open>partition_sizes\<close>: how the rows of the joined frame are split into partitions when
    \<^verbatim>\<open>monotonically_increasing_id\<close> numbers them;
  \<^item> \<open>utcoffset\<close>: the offset in seconds of the host's local time zone from UTC at a
    given epoch second, used by \<^verbatim>\<open>datetime.fromtimestamp\<close>;
  \<^item> \<open>week_in_year\<close>: the week number that pattern letter \<^verbatim>\<open>w\<close> prints, which depends
    on the formatter's locale (first day of the week, minimal days of the first week).
\<close>

record spark_session =
  pick_songs :: "songs_row list \<Rightarrow> nat"
  pick_artists :: "artists_row list \<Rightarrow> nat"
  pick_users :: "users_row list \<Rightarrow> nat"
  pick_ts :: "int option list \<Rightarrow> nat"
  partition_sizes :: "nat list"
  utcoffset :: "int \<Rightarrow> int"
  week_in_year :: "datetime \<Rightarrow> nat"

datatype error =
  TypeError             \<comment> \<open>\<^verbatim>\<open>None / 1000\<close> in the lambda of \<^verbatim>\<open>get_timestamp\<close>\<close>
  | ValueError          \<comment> \<open>\<^verbatim>\<open>datetime.fromtimestamp\<close>: year out of range\<close>
  | AnalysisException   \<comment> \<open>\<^verbatim>\<open>spark.read.parquet\<close>: the path does not exist\<close>

subsection \<open>dropDuplicates\<close>

text \<open>
  \<^verbatim>\<open>dropDuplicates(subset=...)\<close> groups the rows by the key columns (two nulls are in the
  same group) and keeps one row of each group. A table is a list of rows; its order is
  the one in which the model produces the rows, Spark itself promises none.
\<close>

definition dropDuplicates :: "('a list \<Rightarrow> nat) \<Rightarrow> ('a \<Rightarrow> 'k) \<Rightarrow> 'a list \<Rightarrow> 'a list" where
  "dropDuplicates pick key rows =
     map (\<lambda>k. let grp = filter (\<lambda>r. key r = k) rows in grp ! (pick grp mod length grp))
         (remdups (map key rows))"

subsection \<open>monotonically\_increasing\_id\<close>

text \<open>
  The id of a row is its partition's index in the upper bits and its position within the
  partition in the lower 33 bits. \<open>monotonically_increasing_id sizes p n\<close> numbers \<open>n\<close> rows
  starting with partition \<open>p\<close>; rows beyond the listed sizes fall into one last partition.
\<close>

fun monotonically_increasing_id :: "nat list \<Rightarrow> nat \<Rightarrow> nat \<Rightarrow> int list" where
  "monotonically_increasing_id [] p n = map (\<lambda>i. int p * 2 ^ 33 + int i) [0..<n]"
| "monotonically_increasing_id (s # ss) p n =
     map (\<lambda>i. int p * 2 ^ 33 + int i) [0..<min s n]
     @ monotonically_increasing_id ss (Suc p) (n - min s n)"

section \<open>Timestamps and date formatting\<close>

text \<open>
  Days since 1970-01-01 to year, month and day of the proleptic Gregorian calendar, the
  calendar of Python's \<^verbatim>\<open>datetime\<close>. Years are counted from 1 March in cycles of 400
  years (146097 days); \<open>div\<close> and \<open>mod\<close> on \<open>int\<close> round towards minus infinity.
\<close>

definition civil_from_days :: "int \<Rightarrow> int \<times> int \<times> int" where
  "civil_from_days z0 =
     (let z = z0 + 719468;
          era = z div 146097;
          doe = z mod 146097;
          yoe = (doe - doe div 1460 + doe div 36524 - doe div 146096) div 365;
          doy = doe - (365 * yoe + yoe div 4 - yoe div 100);
          mp = (5 * doy + 2) div 153;
          d = doy - (153 * mp + 2) div 5 + 1;
          m = (if mp < 10 then mp + 3 else mp - 9);
          y = yoe + era * 400 + (if m \<le> 2 then 1 else 0)
      in (y, m, d))"

text \<open>
  \<^verbatim>\<open>datetime.fromtimestamp(x/1000)\<close> for an integer \<open>x\<close> of epoch milliseconds: the local
  wall-clock time of second \<open>x div 1000\<close>. Python raises when the year is not within
  \<^verbatim>\<open>MINYEAR..MAXYEAR\<close> = 1..9999. The microsecond is the one of the exact quotient (the
  rounding of the float \<^verbatim>\<open>x/1000\<close> is not modelled; no other field depends on it).
\<close>

definition fromtimestamp :: "spark_session \<Rightarrow> int \<Rightarrow> error + datetime" where
  "fromtimestamp spark x =
     (let secs = x div 1000;
          local = secs + utcoffset spark secs;
          sod = local mod 86400;
          (y, m, d) = civil_from_days (local div 86400)
      in if y < 1 \<or> 9999 < y then Inl ValueError
         else Inr \<lparr>dt_year = y, dt_month = m, dt_day = d,
                   dt_hour = sod div 3600, dt_minute = sod mod 3600 div 60,
                   dt_second = sod mod 60, dt_microsecond = x mod 1000 * 1000\<rparr>)"

text \<open>
  \<^verbatim>\<open>get_timestamp = udf(lambda x: datetime.fromtimestamp(x/1000), TimestampType())\<close>.
  A Python UDF is called with \<^verbatim>\<open>None\<close> for a null cell, and \<^verbatim>\<open>None/1000\<close> raises.
\<close>

definition get_timestamp :: "spark_session \<Rightarrow> int option \<Rightarrow> error + datetime" where
  "get_timestamp spark x = (case x of None \<Rightarrow> Inl TypeError | Some v \<Rightarrow> fromtimestamp spark v)"

text \<open>Decimal digits of a number, without padding.\<close>

fun dec :: "nat \<Rightarrow> string" where
  "dec n = (if n < 10 then [''0123456789'' ! n]
            else dec (n div 10) @ [''0123456789'' ! (n mod 10)])"

declare dec.simps [simp del]

definition hour :: "datetime \<Rightarrow> int" where
  "hour d = dt_hour d"

text \<open>
  \<^verbatim>\<open>date_format(col, pattern)\<close> for the five one-letter patterns the program uses, under
  the session's \<^verbatim>\<open>LEGACY\<close> time parser policy (the pattern letters of Java's
  \<^verbatim>\<open>SimpleDateFormat\<close>): \<^verbatim>\<open>y\<close> year, \<^verbatim>\<open>M\<close> month in year, \<^verbatim>\<open>w\<close> week in year, \<^verbatim>\<open>d\<close> day in
  month, and \<^verbatim>\<open>F\<close> day of week in month, which is 1 for the days 1 to 7 of a month, 2 for
  the days 8 to 14, and so on. A single letter prints the number without padding. Other
  patterns do not occur in the program and are not modelled. The formatter reads the
  timestamp in the session's time zone, which is the host's, so it sees the wall-clock
  reading that the UDF returned; the calendar is the Gregorian one throughout (the legacy
  formatter's change to the Julian calendar before 1582 is not modelled).
\<close>

definition date_format :: "spark_session \<Rightarrow> datetime \<Rightarrow> string \<Rightarrow> string" where
  "date_format spark d pattern =
     (if pattern = ''y'' then dec (nat (dt_year d))
      else if pattern = ''M'' then dec (nat (dt_month d))
      else if pattern = ''w'' then dec (week_in_year spark d)
      else if pattern = ''d'' then dec (nat (dt_day d))
      else if pattern = ''F'' then dec (nat ((dt_day d - 1) div 7 + 1))
      else [])"

section \<open>The stored tables\<close>

text \<open>
  The output root holds five parquet directories; \<open>None\<close> is a path that does not exist.
  Every write of the program has mode \<^verbatim>\<open>overwrite\<close>: it replaces the directory.
  Reading a directory back returns the rows that were written (how \<^verbatim>\<open>partitionBy\<close> lays
  the rows out in subdirectories, and the types Spark infers for partition columns when
  it reads them back, are not modelled).
\<close>

record store =
  songs_parquet :: "songs_row list option"
  artists_parquet :: "artists_row list option"
  users_parquet :: "users_row list option"
  time_parquet :: "time_row list option"
  songplays_parquet :: "songplays_row list option"

section \<open>process\_song\_data\<close>

text \<open>\<^verbatim>\<open>df.select('song_id','artist_id','title','year','duration')\<close> on one record.\<close>

definition songs_columns :: "song_record \<Rightarrow> songs_row" where
  "songs_columns c = \<lparr>s_song_id = song_id c, s_artist_id = artist_id c, s_title = title c,
                       s_year = year c, s_duration = duration c\<rparr>"

definition songs_table :: "spark_session \<Rightarrow> song_record list \<Rightarrow> songs_row list" where
  "songs_table spark df =
     dropDuplicates (pick_songs spark) (\<lambda>r. (s_song_id r, s_artist_id r)) (map songs_columns df)"

definition artists_columns :: "song_record \<Rightarrow> artists_row" where
  "artists_columns c = \<lparr>a_artist_id = artist_id c, a_artist_name = artist_name c,
                         a_artist_location = artist_location c,
                         a_artist_latitude = artist_latitude c,
                         a_artist_longitude = artist_longitude c,
                         a_num_songs = num_songs c\<rparr>"

text \<open>\<^verbatim>\<open>orderBy('artist_id')\<close> sorts ascending with nulls first, as \<open>None\<close> is least.\<close>

definition artists_table :: "spark_session \<Rightarrow> song_record list \<Rightarrow> artists_row list" where
  "artists_table spark df =
     dropDuplicates (pick_artists spark) a_artist_id
       (sort_key a_artist_id (map artists_columns df))"

definition process_song_data :: "spark_session \<Rightarrow> song_record list \<Rightarrow> store \<Rightarrow> store" where
  "process_song_data spark song_data output_data =
     output_data\<lparr>songs_parquet := Some (songs_table spark song_data),
                 artists_parquet := Some (artists_table spark song_data)\<rparr>"

section \<open>process\_log\_data\<close>

text \<open>
  \<^verbatim>\<open>==\<close> on two columns, as a filter or join condition: it holds for a pair of cells when
  neither is null and they are equal.
\<close>

definition sql_eq :: "'a option \<Rightarrow> 'a option \<Rightarrow> bool" where
  "sql_eq a b = (a \<noteq> None \<and> b \<noteq> None \<and> a = b)"

text \<open>\<^verbatim>\<open>df.where(df.page=='NextSong')\<close>.\<close>

definition nextsong :: "log_record list \<Rightarrow> log_record list" where
  "nextsong log_data = filter (\<lambda>r. sql_eq (page r) (Some ''NextSong'')) log_data"

text \<open>\<^verbatim>\<open>df.select('userId', 'firstName', 'lastName', 'gender', 'level')\<close> on one record.\<close>

definition users_columns :: "log_record \<Rightarrow> users_row" where
  "users_columns r = \<lparr>u_userId = userId r, u_firstName = firstName r, u_lastName = lastName r,
                       u_gender = gender r, u_level = level r\<rparr>"

definition users_table :: "spark_session \<Rightarrow> log_record list \<Rightarrow> users_row list" where
  "users_table spark df = dropDuplicates (pick_users spark) u_userId (map users_columns df)"

text \<open>Evaluating a column for every row stops at the first row that raises.\<close>

fun for_each :: "('a \<Rightarrow> error + 'b) \<Rightarrow> 'a list \<Rightarrow> error + 'b list" where
  "for_each f [] = Inr []"
| "for_each f (x # xs) =
     (case f x of Inl e \<Rightarrow> Inl e
      | Inr y \<Rightarrow> (case for_each f xs of Inl e \<Rightarrow> Inl e | Inr ys \<Rightarrow> Inr (y # ys)))"

definition time_columns :: "spark_session \<Rightarrow> int option \<Rightarrow> error + time_row" where
  "time_columns spark x =
     (case get_timestamp spark x of
        Inl e \<Rightarrow> Inl e
      | Inr d \<Rightarrow> Inr \<lparr>t_ts = x, t_datetime = d, t_hour = hour d,
                      t_year = date_format spark d ''y'',
                      t_month = date_format spark d ''M'',
                      t_week = date_format spark d ''w'',
                      t_day = date_format spark d ''d'',
                      t_weekday = date_format spark d ''F''\<rparr>)"

text \<open>\<^verbatim>\<open>df.select('ts').dropDuplicates()\<close>, then the \<^verbatim>\<open>withColumn\<close> calls on what is left.\<close>

definition time_table :: "spark_session \<Rightarrow> log_record list \<Rightarrow> error + time_row list" where
  "time_table spark df =
     for_each (time_columns spark) (dropDuplicates (pick_ts spark) (\<lambda>x. x) (map ts df))"

text \<open>
  \<^verbatim>\<open>df.join(song_df, df.song == song_df.song_id, 'left')\<close>: a row of \<open>df\<close> is paired with
  every row of \<open>song_df\<close> that satisfies the condition, and with nulls when there is none.
\<close>

definition join_left :: "log_record list \<Rightarrow> songs_row list \<Rightarrow> (log_record \<times> songs_row option) list" where
  "join_left df song_df =
     concat (map (\<lambda>l. let ms = filter (\<lambda>s. sql_eq (song l) (s_song_id s)) song_df
                       in if ms = [] then [(l, None)] else map (\<lambda>s. (l, Some s)) ms) df)"

definition songplays_all_columns ::
  "spark_session \<Rightarrow> log_record list \<Rightarrow> songs_row list \<Rightarrow> (int \<times> log_record \<times> songs_row option) list" where
  "songplays_all_columns spark df song_df =
     (let joined = join_left df song_df
      in zip (monotonically_increasing_id (partition_sizes spark) 0 (length joined)) joined)"

text \<open>The \<^verbatim>\<open>select\<close> of line 145 on one joined row.\<close>

definition select_songplay :: "int \<times> log_record \<times> songs_row option \<Rightarrow> songplay" where
  "select_songplay row =
     (case row of (idx, l, s) \<Rightarrow>
        \<lparr>sp_songplay_id = idx, sp_start_time = ts l, sp_user_id = userId l,
         sp_level = level l,
         sp_song_id = (case s of None \<Rightarrow> None | Some r \<Rightarrow> s_song_id r),
         sp_artist_id = (case s of None \<Rightarrow> None | Some r \<Rightarrow> s_artist_id r),
         sp_session_id = sessionId l, sp_location = location l,
         sp_user_agent = userAgent l\<rparr>)"

definition songplays :: "spark_session \<Rightarrow> log_record list \<Rightarrow> songs_row list \<Rightarrow> songplay list" where
  "songplays spark df song_df = map select_songplay (songplays_all_columns spark df song_df)"

text \<open>The \<^verbatim>\<open>select\<close> of line 148 on one pair of the join with the Time table.\<close>

definition select_songplays_row :: "songplay \<Rightarrow> time_row \<Rightarrow> songplays_row" where
  "select_songplays_row p t =
     \<lparr>f_songplay_id = sp_songplay_id p, f_start_time = sp_start_time p,
      f_user_id = sp_user_id p, f_level = sp_level p,
      f_song_id = sp_song_id p, f_artist_id = sp_artist_id p,
      f_session_id = sp_session_id p, f_location = sp_location p,
      f_user_agent = sp_user_agent p,
      f_year = t_year t, f_month = t_month t\<rparr>"

text \<open>
  \<^verbatim>\<open>songplays.join(time_table, songplays.start_time == time_table.ts, 'inner')\<close>: the pairs
  that satisfy the condition, and nothing else.
\<close>

definition songplays_table :: "songplay list \<Rightarrow> time_row list \<Rightarrow> songplays_row list" where
  "songplays_table sps tt =
     concat (map (\<lambda>p. map (select_songplays_row p)
                         (filter (\<lambda>t. sql_eq (sp_start_time p) (t_ts t)) tt)) sps)"

text \<open>
  The function writes the Users table, then the Time table, reads the Songs table back
  and writes Songplays. A write evaluates its frame: the UDF runs when the Time table is
  written, and an exception there ends the run with the Users table already replaced.
  The result is the store and the exception that ended the run, if any.
\<close>

definition process_log_data ::
  "spark_session \<Rightarrow> log_record list \<Rightarrow> store \<Rightarrow> store \<times> error option" where
  "process_log_data spark log_data output_data =
     (let df = nextsong log_data;
          out1 = output_data\<lparr>users_parquet := Some (users_table spark df)\<rparr>
      in case time_table spark df of
           Inl e \<Rightarrow> (out1, Some e)
         | Inr tt \<Rightarrow>
             (let out2 = out1\<lparr>time_parquet := Some tt\<rparr>
              in case songs_parquet out2 of
                   None \<Rightarrow> (out2, Some AnalysisException)
                 | Some song_df \<Rightarrow>
                     (out2\<lparr>songplays_parquet :=
                              Some (songplays_table (songplays spark df song_df) tt)\<rparr>,
                      None)))"

definition main :: "spark_session \<Rightarrow> song_record list \<Rightarrow> log_record list \<Rightarrow> store \<Rightarrow> store \<times> error option" where
  "main spark song_data log_data output_data =
     process_log_data spark log_data (process_song_data spark song_data output_data)"

section \<open>Concrete inputs and engines\<close>

text \<open>
  The inverse of \<open>civil_from_days\<close>, and the week numbering of the US locale: weeks start
  on Sunday, the week that holds 1 January is week 1 of that year, also for its days in
  December. (1970-01-01 was a Thursday.)
\<close>

definition days_from_civil :: "int \<Rightarrow> int \<Rightarrow> int \<Rightarrow> int" where
  "days_from_civil y0 m d =
     (let y = (if m \<le> 2 then y0 - 1 else y0);
          era = y div 400;
          yoe = y mod 400;
          doy = (153 * (if m > 2 then m - 3 else m + 9) + 2) div 5 + d - 1;
          doe = yoe * 365 + yoe div 4 - yoe div 100 + doy
      in era * 146097 + doe - 719468)"

definition week_us :: "datetime \<Rightarrow> nat" where
  "week_us d =
     (let day = days_from_civil (dt_year d) (dt_month d) (dt_day d);
          jan1 = days_from_civil (dt_year d) 1 1;
          next_jan1 = days_from_civil (dt_year d + 1) 1 1
      in if next_jan1 - (next_jan1 + 4) mod 7 \<le> day then 1
         else nat ((day - jan1 + (jan1 + 4) mod 7) div 7 + 1))"

text \<open>
  An engine that keeps the first row of every group, numbers all rows in one partition
  and runs on a host in UTC; one that keeps the second row of a group of songs; and one
  whose first partition is empty.
\<close>

definition first_seen :: spark_session where
  "first_seen = \<lparr>pick_songs = (\<lambda>grp. 0), pick_artists = (\<lambda>grp. 0), pick_users = (\<lambda>grp. 0),
                  pick_ts = (\<lambda>grp. 0), partition_sizes = [], utcoffset = (\<lambda>t. 0),
                  week_in_year = week_us\<rparr>"

definition second_seen :: spark_session where
  "second_seen = first_seen\<lparr>pick_songs := (\<lambda>grp. 1)\<rparr>"

definition repartitioned :: spark_session where
  "repartitioned = first_seen\<lparr>partition_sizes := [0]\<rparr>"

definition empty_store :: store where
  "empty_store = \<lparr>songs_parquet = None, artists_parquet = None, users_parquet = None,
                   time_parquet = None, songplays_parquet = None\<rparr>"

text \<open>A catalog record and a log record with null in every field not given.\<close>

definition null_song :: song_record where
  "null_song = \<lparr>artist_id = None, artist_latitude = None, artist_location = None,
                 artist_longitude = None, artist_name = None, duration = None,
                 num_songs = None, song_id = None, title = None, year = None\<rparr>"

definition null_event :: log_record where
  "null_event = \<lparr>artist = None, auth = None, firstName = None, gender = None,
                  itemInSession = None, lastName = None, level = None, location = None,
                  http_method = None, page = None, registration = None, sessionId = None,
                  song = None, status = None, ts = None, userAgent = None, userId = None\<rparr>"

text \<open>The records of the end-to-end scenario.\<close>

definition scenario_song :: song_record where
  "scenario_song = null_song\<lparr>song_id := Some ''S1'', artist_id := Some ''A1'',
                              title := Some ''Song A'', year := Some 2000,
                              duration := Some 200\<rparr>"

definition scenario_event :: log_record where
  "scenario_event = null_event\<lparr>page := Some ''NextSong'', song := Some ''Song A'',
                                ts := Some 1541121934796, userId := Some 8\<rparr>"

text \<open>
  The catalog of the scenario with the same record once more under another title; and a
  catalog of two records of two artists whose \<^verbatim>\<open>song_id\<close> is the text \<^verbatim>\<open>Song A\<close>.
\<close>

definition duplicate_catalog :: "song_record list" where
  "duplicate_catalog = [scenario_song, scenario_song\<lparr>title := Some ''Song B''\<rparr>]"

definition cover_catalog :: "song_record list" where
  "cover_catalog = [scenario_song\<lparr>song_id := Some ''Song A''\<rparr>,
                    scenario_song\<lparr>song_id := Some ''Song A'', artist_id := Some ''A2''\<rparr>]"

text \<open>
  The event of the scenario is on Friday 2018-11-02 at 01:25:34 UTC. The same event
  seven days later and one day later, and a visit of the home page by another user.
\<close>

definition week_later :: log_record where
  "week_later = scenario_event\<lparr>ts := Some 1541726734796\<rparr>"

definition day_later :: log_record where
  "day_later = scenario_event\<lparr>ts := Some 1541208334796\<rparr>"

definition home_event :: log_record where
  "home_event = scenario_event\<lparr>page := Some ''Home'', song := None, userId := Some 9\<rparr>"

definition sample_log :: "log_record list" where
  "sample_log = [scenario_event, home_event, week_later]"

text \<open>The output root after \<^verbatim>\<open>process_song_data\<close> has run on the catalog of the scenario.\<close>

definition scenario_store :: store where
  "scenario_store = process_song_data first_seen [scenario_song] empty_store"

section \<open>Properties of the engine's operations\<close>

subsection \<open>dropDuplicates keeps one row of every group\<close>

lemma dropDuplicates_keys:
  "map key (dropDuplicates pick key rows) = remdups (map key rows)"
proof -
  have "key (filter (\<lambda>r. key r = k) rows ! (pick (filter (\<lambda>r. key r = k) rows) mod length (filter (\<lambda>r. key r = k) rows))) = k"
    if "k \<in> set (remdups (map key rows))" for k
  proof -
    let ?g = "filter (\<lambda>r. key r = k) rows"
    from that obtain r where "r \<in> set rows" "key r = k" by auto
    then have "r \<in> set ?g" by simp
    then have "0 < length ?g" by (rule length_pos_if_in_set)
    then have "pick ?g mod length ?g < length ?g" by simp
    then have "?g ! (pick ?g mod length ?g) \<in> set ?g" by (rule nth_mem)
    then show ?thesis by simp
  qed
  then have "map (\<lambda>k. key (filter (\<lambda>r. key r = k) rows ! (pick (filter (\<lambda>r. key r = k) rows) mod length (filter (\<lambda>r. key r = k) rows)))) (remdups (map key rows)) = remdups (map key rows)"
    by (intro map_idI) 
  then show ?thesis
    by (simp add: dropDuplicates_def Let_def comp_def)
qed

lemma dropDuplicates_subset:
  "set (dropDuplicates pick key rows) \<subseteq> set rows"
proof
  fix x assume "x \<in> set (dropDuplicates pick key rows)"
  then obtain k where k: "k \<in> set (map key rows)"
    and x: "x = filter (\<lambda>r. key r = k) rows ! (pick (filter (\<lambda>r. key r = k) rows) mod length (filter (\<lambda>r. key r = k) rows))"
    by (auto simp: dropDuplicates_def Let_def)
  let ?g = "filter (\<lambda>r. key r = k) rows"
  from k obtain r where "r \<in> set rows" "key r = k" by auto
  then have "r \<in> set ?g" by simp
  then have "0 < length ?g" by (rule length_pos_if_in_set)
  then have "pick ?g mod length ?g < length ?g" by simp
  then have "?g ! (pick ?g mod length ?g) \<in> set ?g" by (rule nth_mem)
  with x show "x \<in> set rows" by simp
qed

lemma dropDuplicates_distinct: "distinct (map key (dropDuplicates pick key rows))"
  by (simp add: dropDuplicates_keys)

lemma dropDuplicates_key_set: "key ` set (dropDuplicates pick key rows) = key ` set rows"
proof -
  have "set (map key (dropDuplicates pick key rows)) = set (map key rows)"
    by (simp only: dropDuplicates_keys set_remdups)
  then show ?thesis by simp
qed

lemma dropDuplicates_rows: "dropDuplicates pick (\<lambda>x. x) xs = remdups xs"
  using dropDuplicates_keys [of "\<lambda>x. x" pick xs] by simp

lemma dropDuplicates_single: "dropDuplicates pick key [x] = [x]"
  by (simp add: dropDuplicates_def)

lemma length_monotonically_increasing_id:
  "length (monotonically_increasing_id sizes p n) = n"
  by (induction sizes p n rule: monotonically_increasing_id.induct) auto

subsection \<open>The Time table\<close>

lemma for_each_Inr:
  "for_each f xs = Inr ys \<Longrightarrow> list_all2 (\<lambda>x y. f x = Inr y) xs ys"
  by (induction xs arbitrary: ys) (auto split: sum.splits)

lemma time_columns_Inr:
  "time_columns spark x = Inr t \<Longrightarrow>
     x \<noteq> None \<and> t_ts t = x \<and> get_timestamp spark x = Inr (t_datetime t) \<and>
     t_hour t = dt_hour (t_datetime t) \<and>
     t_year t = dec (nat (dt_year (t_datetime t))) \<and>
     t_month t = dec (nat (dt_month (t_datetime t))) \<and>
     t_week t = dec (week_in_year spark (t_datetime t)) \<and>
     t_day t = dec (nat (dt_day (t_datetime t))) \<and>
     t_weekday t = dec (nat ((dt_day (t_datetime t) - 1) div 7 + 1))"
  by (auto simp: time_columns_def get_timestamp_def date_format_def hour_def split: sum.splits option.splits)

lemma time_table_all2:
  assumes "time_table spark df = Inr tt"
  shows "list_all2 (\<lambda>x t. time_columns spark x = Inr t) (remdups (map ts df)) tt"
  using assms by (simp add: time_table_def dropDuplicates_rows for_each_Inr)

lemma time_table_ts:
  assumes "time_table spark df = Inr tt"
  shows "map t_ts tt = remdups (map ts df)"
proof -
  have "list_all2 (\<lambda>x t. t_ts t = x) (remdups (map ts df)) tt"
    using time_table_all2 [OF assms] 
    by (rule list_all2_mono) (blast dest: time_columns_Inr)
  then show ?thesis
    by (induction rule: list_all2_induct) simp_all
qed

lemma time_table_rows:
  assumes "time_table spark df = Inr tt" and "t \<in> set tt"
  shows "time_columns spark (t_ts t) = Inr t"
proof -
  from assms(2) obtain i where i: "i < length tt" "tt ! i = t"
    by (auto simp: in_set_conv_nth)
  from time_table_all2 [OF assms(1)] i(1)
  have "time_columns spark (remdups (map ts df) ! i) = Inr (tt ! i)"
    by (rule list_all2_nthD2)
  with i(2) have *: "time_columns spark (remdups (map ts df) ! i) = Inr t" by simp
  then have "t_ts t = remdups (map ts df) ! i"
    by (blast dest: time_columns_Inr)
  with * show ?thesis by simp
qed

lemma time_table_not_null:
  assumes "time_table spark df = Inr tt"
  shows "None \<notin> set (map ts df)"
proof
  assume "None \<in> set (map ts df)"
  then have "None \<in> set (map t_ts tt)"
    by (simp only: time_table_ts [OF assms] set_remdups)
  then obtain t where t: "t \<in> set tt" "t_ts t = None" by auto
  from time_table_rows [OF assms t(1)] have "t_ts t \<noteq> None"
    by (blast dest: time_columns_Inr)
  with t(2) show False by simp
qed

subsection \<open>The two joins\<close>

lemma set_join_left:
  "set (join_left df song_df) =
     {(l, Some s) |l s. l \<in> set df \<and> s \<in> set song_df \<and> sql_eq (song l) (s_song_id s)}
     \<union> {(l, None) |l. l \<in> set df \<and> (\<forall>s\<in>set song_df. \<not> sql_eq (song l) (s_song_id s))}"
  by (auto simp: join_left_def Let_def filter_empty_conv split: if_splits)

lemma join_left_Cons:
  "join_left (l # df) song_df =
     (if filter (\<lambda>s. sql_eq (song l) (s_song_id s)) song_df = [] then [(l, None)]
      else map (\<lambda>s. (l, Some s)) (filter (\<lambda>s. sql_eq (song l) (s_song_id s)) song_df))
     @ join_left df song_df"
  by (simp add: join_left_def Let_def)

lemma length_join_left:
  "length (join_left df song_df) =
     (\<Sum>l\<leftarrow>df. max 1 (length (filter (\<lambda>s. sql_eq (song l) (s_song_id s)) song_df)))"
proof (induction df)
  case Nil
  then show ?case by (simp add: join_left_def)
next
  case (Cons l df)
  then show ?case
    by (cases "filter (\<lambda>s. sql_eq (song l) (s_song_id s)) song_df")
       (simp_all add: join_left_Cons)
qed

lemma map_fst_join_left:
  assumes "\<forall>l\<in>set df. length (filter (\<lambda>s. sql_eq (song l) (s_song_id s)) song_df) \<le> 1"
  shows "map fst (join_left df song_df) = df"
  using assms
proof (induction df)
  case Nil
  then show ?case by (simp add: join_left_def)
next
  case (Cons l df)
  then have "length (filter (\<lambda>s. sql_eq (song l) (s_song_id s)) song_df) \<le> 1"
    and "map fst (join_left df song_df) = df" by simp_all
  then show ?case
    by (cases "filter (\<lambda>s. sql_eq (song l) (s_song_id s)) song_df")
       (simp_all add: join_left_Cons)
qed

lemma filter_unique:
  assumes "distinct (map f xs)" and "x \<in> set xs"
  shows "filter (\<lambda>y. f y = f x) xs = [x]"
  using assms
proof (induction xs)
  case Nil
  then show ?case by simp
next
  case (Cons a xs)
  show ?case
  proof (cases "a = x")
    case True
    with Cons.prems have "\<forall>y\<in>set xs. f y \<noteq> f x" by (auto simp: image_iff)
    then have "filter (\<lambda>y. f y = f x) xs = []" by (simp add: filter_empty_conv)
    with True show ?thesis by simp
  next
    case False
    with Cons.prems have "x \<in> set xs" by simp
    with Cons.prems have "f a \<noteq> f x" by auto
    moreover from Cons \<open>x \<in> set xs\<close> have "filter (\<lambda>y. f y = f x) xs = [x]" by simp
    ultimately show ?thesis by simp
  qed
qed

lemma songplays_table_no_drop:
  assumes d: "distinct (map t_ts tt)"
    and m: "\<forall>p\<in>set sps. sp_start_time p \<noteq> None \<and> sp_start_time p \<in> set (map t_ts tt)"
  shows "\<exists>ts. length ts = length sps \<and> set ts \<subseteq> set tt \<and>
           songplays_table sps tt = map2 select_songplays_row sps ts \<and>
           map t_ts ts = map sp_start_time sps"
  using m
proof (induction sps)
  case Nil
  then show ?case by (simp add: songplays_table_def)
next
  case (Cons p sps)
  then obtain ts where ts: "length ts = length sps" "set ts \<subseteq> set tt"
      "songplays_table sps tt = map2 select_songplays_row sps ts"
      "map t_ts ts = map sp_start_time sps"
    by auto
  from Cons.prems obtain t where t: "t \<in> set tt" "t_ts t = sp_start_time p" "sp_start_time p \<noteq> None"
    by auto
  have "filter (\<lambda>u. sql_eq (sp_start_time p) (t_ts u)) tt = filter (\<lambda>u. t_ts u = t_ts t) tt"
    using t by (intro filter_cong) (auto simp: sql_eq_def)
  also have "\<dots> = [t]" using d t(1) by (rule filter_unique)
  finally have "songplays_table (p # sps) tt = select_songplays_row p t # songplays_table sps tt"
    by (simp add: songplays_table_def)
  with ts t show ?case
    by (intro exI [of _ "t # ts"]) simp
qed

lemma set_songplays_table:
  "set (songplays_table sps tt) =
     {select_songplays_row p t |p t. p \<in> set sps \<and> t \<in> set tt \<and> sql_eq (sp_start_time p) (t_ts t)}"
  by (auto simp: songplays_table_def)

subsection \<open>The run of process\_log\_data\<close>

lemma songs_parquet_users_time [simp]:
  "songs_parquet (out\<lparr>users_parquet := u\<rparr>) = songs_parquet out"
  "songs_parquet (out\<lparr>time_parquet := t\<rparr>) = songs_parquet out"
  by simp_all

lemma process_log_data_success:
  assumes "snd (process_log_data spark log_data out) = None"
  obtains tt song_df where
    "time_table spark (nextsong log_data) = Inr tt"
    "songs_parquet out = Some song_df"
    "fst (process_log_data spark log_data out) =
       out\<lparr>users_parquet := Some (users_table spark (nextsong log_data)),
           time_parquet := Some tt,
           songplays_parquet :=
             Some (songplays_table (songplays spark (nextsong log_data) song_df) tt)\<rparr>"
  using assms
  by (auto simp: process_log_data_def Let_def split: sum.splits option.splits)

lemma process_log_data_failure:
  assumes "snd (process_log_data spark log_data out) \<noteq> None"
  shows "songplays_parquet (fst (process_log_data spark log_data out)) = songplays_parquet out"
  using assms
  by (auto simp: process_log_data_def Let_def split: sum.splits option.splits)

lemma process_log_data_users:
  "users_parquet (fst (process_log_data spark log_data out)) =
     Some (users_table spark (nextsong log_data))"
  by (auto simp: process_log_data_def Let_def split: sum.splits option.splits)

lemma map_snd_songplays_all_columns:
  "map snd (songplays_all_columns spark df song_df) = join_left df song_df"
  by (simp add: songplays_all_columns_def Let_def map_snd_zip length_monotonically_increasing_id)

lemma length_songplays:
  "length (songplays spark df song_df) = length (join_left df song_df)"
  by (simp add: songplays_def songplays_all_columns_def Let_def length_monotonically_increasing_id)

lemma songplays_columns:
  "map (\<lambda>p. (sp_start_time p, sp_user_id p, sp_level p, sp_session_id p, sp_location p,
              sp_user_agent p, sp_song_id p, sp_artist_id p))
       (songplays spark df song_df) =
   map (\<lambda>(l, s). (ts l, userId l, level l, sessionId l, location l, userAgent l,
                   (case s of None \<Rightarrow> None | Some r \<Rightarrow> s_song_id r),
                   (case s of None \<Rightarrow> None | Some r \<Rightarrow> s_artist_id r)))
       (join_left df song_df)"
proof -
  have "map (\<lambda>p. (sp_start_time p, sp_user_id p, sp_level p, sp_session_id p, sp_location p,
              sp_user_agent p, sp_song_id p, sp_artist_id p))
       (songplays spark df song_df) =
    map (\<lambda>(l, s). (ts l, userId l, level l, sessionId l, location l, userAgent l,
                   (case s of None \<Rightarrow> None | Some r \<Rightarrow> s_song_id r),
                   (case s of None \<Rightarrow> None | Some r \<Rightarrow> s_artist_id r)))
       (map snd (songplays_all_columns spark df song_df))"
    by (simp add: songplays_def select_songplay_def case_prod_beta)
  then show ?thesis
    by (simp only: map_snd_songplays_all_columns)
qed

lemma songplays_start_time:
  assumes "p \<in> set (songplays spark df song_df)"
  shows "\<exists>l\<in>set df. sp_start_time p = ts l \<and> sp_user_id p = userId l \<and> sp_level p = level l \<and>
           sp_session_id p = sessionId l \<and> sp_location p = location l \<and>
           sp_user_agent p = userAgent l"
proof -
  from assms obtain i l s where row: "(i, l, s) \<in> set (songplays_all_columns spark df song_df)"
    and p: "p = select_songplay (i, l, s)"
    by (auto simp: songplays_def)
  from row have "(l, s) \<in> set (map snd (songplays_all_columns spark df song_df))"
    by force
  then have "(l, s) \<in> set (join_left df song_df)"
    by (simp only: map_snd_songplays_all_columns)
  then have "l \<in> set df" by (auto simp: set_join_left)
  with p show ?thesis by (auto simp: select_songplay_def)
qed

lemma select_songplays_row_columns:
  assumes "length tsl = length sps"
  shows "map (\<lambda>f. (f_songplay_id f, f_start_time f, f_user_id f, f_level f, f_session_id f,
              f_location f, f_user_agent f, f_song_id f, f_artist_id f))
           (map2 select_songplays_row sps tsl) =
         map (\<lambda>p. (sp_songplay_id p, sp_start_time p, sp_user_id p, sp_level p, sp_session_id p,
              sp_location p, sp_user_agent p, sp_song_id p, sp_artist_id p)) sps"
  using assms [symmetric]
  by (induction sps tsl rule: list_induct2) (simp_all add: select_songplays_row_def)

text \<open>
  In a run that ends without exception every \<^verbatim>\<open>ts\<close> of a play event is in the Time
  table, so the inner join pairs every row of \<open>songplays\<close> with exactly one row of it.
\<close>

lemma process_log_data_join:
  assumes "snd (process_log_data spark log_data out) = None"
  obtains tt song_df tsl where
    "time_table spark (nextsong log_data) = Inr tt"
    "songs_parquet out = Some song_df"
    "time_parquet (fst (process_log_data spark log_data out)) = Some tt"
    "songplays_parquet (fst (process_log_data spark log_data out)) =
       Some (songplays_table (songplays spark (nextsong log_data) song_df) tt)"
    "songplays_table (songplays spark (nextsong log_data) song_df) tt =
       map2 select_songplays_row (songplays spark (nextsong log_data) song_df) tsl"
    "length tsl = length (songplays spark (nextsong log_data) song_df)"
    "set tsl \<subseteq> set tt"
    "map t_ts tsl = map sp_start_time (songplays spark (nextsong log_data) song_df)"
    "\<forall>p\<in>set (songplays spark (nextsong log_data) song_df).
        sp_start_time p \<noteq> None \<and> sp_start_time p \<in> set (map t_ts tt)"
proof -
  from assms obtain tt song_df where tt: "time_table spark (nextsong log_data) = Inr tt"
    and sd: "songs_parquet out = Some song_df"
    and out': "fst (process_log_data spark log_data out) =
       out\<lparr>users_parquet := Some (users_table spark (nextsong log_data)),
           time_parquet := Some tt,
           songplays_parquet :=
             Some (songplays_table (songplays spark (nextsong log_data) song_df) tt)\<rparr>"
    by (rule process_log_data_success)
  let ?sps = "songplays spark (nextsong log_data) song_df"
  have d: "distinct (map t_ts tt)"
    by (simp add: time_table_ts [OF tt])
  have m: "\<forall>p\<in>set ?sps. sp_start_time p \<noteq> None \<and> sp_start_time p \<in> set (map t_ts tt)"
  proof
    fix p assume "p \<in> set ?sps"
    then obtain l where l: "l \<in> set (nextsong log_data)" "sp_start_time p = ts l"
      using songplays_start_time by blast
    then have "sp_start_time p \<in> set (map ts (nextsong log_data))" by simp
    moreover from this time_table_not_null [OF tt] have "sp_start_time p \<noteq> None" by metis
    ultimately show "sp_start_time p \<noteq> None \<and> sp_start_time p \<in> set (map t_ts tt)"
      by (simp only: time_table_ts [OF tt] set_remdups simp_thms)
  qed
  from songplays_table_no_drop [OF d m] obtain tsl where
    "length tsl = length ?sps" "set tsl \<subseteq> set tt"
    "songplays_table ?sps tt = map2 select_songplays_row ?sps tsl"
    "map t_ts tsl = map sp_start_time ?sps"
    by blast
  with tt sd out' m show ?thesis
    by (intro that [of tt song_df tsl]) simp_all
qed

lemma process_log_data_failure_time:
  assumes "time_table spark (nextsong log_data) = Inl e"
  shows "process_log_data spark log_data out =
           (out\<lparr>users_parquet := Some (users_table spark (nextsong log_data))\<rparr>, Some e)"
  using assms by (simp add: process_log_data_def Let_def)

lemma time_table_one_row_per_ts:
  assumes "time_table spark df = Inr tt"
  shows "distinct (map t_ts tt) \<and> set (map t_ts tt) = set (map ts df)"
  by (simp add: time_table_ts [OF assms])

lemma sql_eq_iff: "sql_eq a b \<longleftrightarrow> a \<noteq> None \<and> a = b"
  by (auto simp: sql_eq_def)

lemma set_nextsong: "set (nextsong log_data) = {l \<in> set log_data. page l = Some ''NextSong''}"
  by (auto simp: nextsong_def sql_eq_def)

lemma process_log_data_columns:
  assumes "snd (process_log_data spark log_data out) = None"
  obtains tt song_df where
    "songs_parquet out = Some song_df"
    "time_parquet (fst (process_log_data spark log_data out)) = Some tt"
    "songplays_parquet (fst (process_log_data spark log_data out)) =
       Some (songplays_table (songplays spark (nextsong log_data) song_df) tt)"
    "map (\<lambda>f. (f_start_time f, f_user_id f, f_level f, f_session_id f,
              f_location f, f_user_agent f, f_song_id f, f_artist_id f))
         (songplays_table (songplays spark (nextsong log_data) song_df) tt) =
     map (\<lambda>(l, s). (ts l, userId l, level l, sessionId l, location l, userAgent l,
                   (case s of None \<Rightarrow> None | Some r \<Rightarrow> s_song_id r),
                   (case s of None \<Rightarrow> None | Some r \<Rightarrow> s_artist_id r)))
         (join_left (nextsong log_data) song_df)"
proof -
  from assms obtain tt song_df tsl where
    sd: "songs_parquet out = Some song_df"
    and tt: "time_parquet (fst (process_log_data spark log_data out)) = Some tt"
    and tab: "songplays_parquet (fst (process_log_data spark log_data out)) =
       Some (songplays_table (songplays spark (nextsong log_data) song_df) tt)"
    and eq: "songplays_table (songplays spark (nextsong log_data) song_df) tt =
       map2 select_songplays_row (songplays spark (nextsong log_data) song_df) tsl"
    and len: "length tsl = length (songplays spark (nextsong log_data) song_df)"
    by (rule process_log_data_join)
  let ?df = "nextsong log_data"
  let ?tab = "songplays_table (songplays spark ?df song_df) tt"
  have "map (\<lambda>f. (f_songplay_id f, f_start_time f, f_user_id f, f_level f, f_session_id f,
              f_location f, f_user_agent f, f_song_id f, f_artist_id f)) ?tab =
         map (\<lambda>p. (sp_songplay_id p, sp_start_time p, sp_user_id p, sp_level p, sp_session_id p,
              sp_location p, sp_user_agent p, sp_song_id p, sp_artist_id p))
           (songplays spark ?df song_df)"
    unfolding eq using len by (rule select_songplays_row_columns)
  then have "map (snd \<circ> (\<lambda>f. (f_songplay_id f, f_start_time f, f_user_id f, f_level f, f_session_id f,
              f_location f, f_user_agent f, f_song_id f, f_artist_id f))) ?tab =
         map (snd \<circ> (\<lambda>p. (sp_songplay_id p, sp_start_time p, sp_user_id p, sp_level p, sp_session_id p,
              sp_location p, sp_user_agent p, sp_song_id p, sp_artist_id p)))
           (songplays spark ?df song_df)"
    by (simp only: map_map [symmetric])
  then have "map (\<lambda>f. (f_start_time f, f_user_id f, f_level f, f_session_id f,
              f_location f, f_user_agent f, f_song_id f, f_artist_id f)) ?tab = 
         map (\<lambda>p. (sp_start_time p, sp_user_id p, sp_level p, sp_session_id p,
              sp_location p, sp_user_agent p, sp_song_id p, sp_artist_id p))
           (songplays spark ?df song_df)"
    by (simp add: comp_def)
  then have "map (\<lambda>f. (f_start_time f, f_user_id f, f_level f, f_session_id f,
              f_location f, f_user_agent f, f_song_id f, f_artist_id f)) ?tab =
     map (\<lambda>(l, s). (ts l, userId l, level l, sessionId l, location l, userAgent l,
                   (case s of None \<Rightarrow> None | Some r \<Rightarrow> s_song_id r),
                   (case s of None \<Rightarrow> None | Some r \<Rightarrow> s_artist_id r)))
         (join_left ?df song_df)"
    by (simp only: songplays_columns)
  with sd tt tab show ?thesis by (rule that)
qed

subsection \<open>Decimal strings, and any duplicate can be the one retained\<close>

lemma dec_digits: "set (dec n) \<subseteq> set ''0123456789'' \<and> dec n \<noteq> []"
proof (induction n rule: dec.induct)
  case (1 n)
  have d: "''0123456789'' ! k \<in> set ''0123456789''" if "k < 10" for k
    using that by (intro nth_mem) simp
  show ?case
  proof (cases "n < 10")
    case True
    with d [of n] show ?thesis by (subst dec.simps, subst (2) dec.simps) simp
  next
    case False
    with 1 have "set (dec (n div 10)) \<subseteq> set ''0123456789''" by simp
    moreover have "''0123456789'' ! (n mod 10) \<in> set ''0123456789''" by (rule d) simp
    ultimately show ?thesis using False
      by (subst dec.simps, subst (2) dec.simps) simp
  qed
qed

lemma takeWhile_index:
  "r \<in> set xs \<Longrightarrow>
     length (takeWhile (\<lambda>x. x \<noteq> r) xs) < length xs \<and> xs ! length (takeWhile (\<lambda>x. x \<noteq> r) xs) = r"
  by (induction xs) auto

lemma dropDuplicates_any:
  assumes "r \<in> set rows"
  shows "\<exists>pick. r \<in> set (dropDuplicates pick key rows)"
proof (rule exI)
  let ?pick = "\<lambda>grp. length (takeWhile (\<lambda>x. x \<noteq> r) grp)"
  let ?g = "filter (\<lambda>x. key x = key r) rows"
  from assms have "r \<in> set ?g" by simp
  then have "?pick ?g < length ?g" "?g ! ?pick ?g = r"
    by (simp_all add: takeWhile_index)
  then have "?g ! (?pick ?g mod length ?g) = r" by simp
  moreover from assms have "key r \<in> set (remdups (map key rows))" by simp
  ultimately show "r \<in> set (dropDuplicates ?pick key rows)"
    unfolding dropDuplicates_def Let_def set_map by (intro image_eqI [of _ _ "key r"]) simp_all
qed

subsection \<open>A run that completes replaces all five tables\<close>

lemma main_success:
  assumes tt: "time_table spark (nextsong log_data) = Inr tt"
  shows "main spark song_data log_data out =
          (out\<lparr>songs_parquet := Some (songs_table spark song_data),
               artists_parquet := Some (artists_table spark song_data),
               users_parquet := Some (users_table spark (nextsong log_data)),
               time_parquet := Some tt,
               songplays_parquet :=
                 Some (songplays_table
                         (songplays spark (nextsong log_data) (songs_table spark song_data)) tt)\<rparr>,
           None)"
  by (simp add: main_def process_log_data_def process_song_data_def Let_def tt)

lemma store_overwritten:
  fixes out1 out2 :: store
  shows "out1\<lparr>songs_parquet := a, artists_parquet := b, users_parquet := c,
              time_parquet := d, songplays_parquet := e\<rparr> =
         out2\<lparr>songs_parquet := a, artists_parquet := b, users_parquet := c,
              time_parquet := d, songplays_parquet := e\<rparr>"
  by (cases out1, cases out2) simp

section \<open>Evaluation at the concrete inputs\<close>

lemma civil_nov_2018:
  "civil_from_days 17836 = (2018, 11, 1)"
  "civil_from_days 17837 = (2018, 11, 2)"
  "civil_from_days 17838 = (2018, 11, 3)"
  by code_simp+

lemma dec_2018_11: "dec 2018 = ''2018''" "dec 11 = ''11''"
  by code_simp+

lemma fromtimestamp_scenario:
  assumes "\<bar>utcoffset spark 1541121934\<bar> \<le> 86400"
  shows "\<exists>d. fromtimestamp spark 1541121934796 = Inr d \<and> dt_year d = 2018 \<and> dt_month d = 11"
proof -
  define loc where "loc = 1541121934 + utcoffset spark 1541121934"
  have secs: "(1541121934796::int) div 1000 = 1541121934" by simp
  have eq: "fromtimestamp spark 1541121934796 =
      (case civil_from_days (loc div 86400) of
         (y, m, d) \<Rightarrow>
           if y < 1 \<or> 9999 < y then Inl ValueError
           else Inr \<lparr>dt_year = y, dt_month = m, dt_day = d,
                     dt_hour = loc mod 86400 div 3600, dt_minute = loc mod 86400 mod 3600 div 60,
                     dt_second = loc mod 86400 mod 60,
                     dt_microsecond = 1541121934796 mod 1000 * 1000\<rparr>)"
    unfolding fromtimestamp_def Let_def secs loc_def ..
  from assms have "1541030400 \<le> loc" "loc < 1541289600"
    unfolding loc_def by linarith+
  then have "loc div 86400 = 17836 \<or> loc div 86400 = 17837 \<or> loc div 86400 = 17838"
    by linarith
  then show ?thesis
    unfolding eq by (elim disjE) (simp_all only: civil_nov_2018 prod.case, simp_all)
qed

lemma nextsong_scenario: "nextsong [scenario_event] = [scenario_event]"
  by (simp add: nextsong_def sql_eq_def scenario_event_def null_event_def)

lemma scenario_event_columns:
  "ts scenario_event = Some 1541121934796" "song scenario_event = Some ''Song A''"
  "userId scenario_event = Some 8"
  by (simp_all add: scenario_event_def null_event_def)

lemma scenario_song_columns:
  "s_song_id (songs_columns scenario_song) = Some ''S1''"
  "s_artist_id (songs_columns scenario_song) = Some ''A1''"
  by (simp_all add: songs_columns_def scenario_song_def null_song_def)

lemma week_later_columns:
  "ts week_later = Some 1541726734796" "song week_later = Some ''Song A''"
  "userId week_later = Some 8"
  by (simp_all add: week_later_def scenario_event_def null_event_def)

lemma scenario_run: "snd (main first_seen [scenario_song] [scenario_event] empty_store) = None"
  by code_simp

lemma sample_run: "snd (process_log_data first_seen sample_log scenario_store) = None"
  by code_simp

lemma scenario_store_songs: "songs_parquet scenario_store = Some [songs_columns scenario_song]"
  by code_simp

lemma nextsong_sample: "nextsong sample_log = [scenario_event, week_later]"
  by code_simp

lemma sample_songplays_length:
  "map_option length (songplays_parquet (fst (process_log_data first_seen sample_log scenario_store))) = Some 2"
  by code_simp

lemma sample_time_length:
  "map_option length (time_parquet (fst (process_log_data first_seen sample_log scenario_store))) = Some 2"
  by code_simp

lemma sample_events:
  "map (\<lambda>l. (ts l, userId l, level l, sessionId l, location l, userAgent l)) (nextsong sample_log) =
     [(Some 1541121934796, Some 8, None, None, None, None),
      (Some 1541726734796, Some 8, None, None, None, None)]"
  by (simp add: nextsong_sample week_later_def scenario_event_def null_event_def)

lemma sample_no_match:
  "l \<in> set (nextsong sample_log) \<Longrightarrow>
     filter (\<lambda>s. sql_eq (song l) (s_song_id s)) [songs_columns scenario_song] = []"
  by (auto simp: nextsong_sample sql_eq_def scenario_event_columns week_later_columns
        scenario_song_columns)

lemma sample_userIds:
  "userId ` {l \<in> set sample_log. page l = Some ''NextSong''} = {Some 8}"
proof -
  have "userId ` set (nextsong sample_log) = {Some 8}"
    by (simp add: nextsong_sample scenario_event_columns week_later_columns)
  then show ?thesis by (simp only: set_nextsong)
qed

lemma duplicate_catalog_member:
  "scenario_song\<lparr>title := Some ''Song B''\<rparr> \<in> set duplicate_catalog"
  by (simp add: duplicate_catalog_def)

section \<open>The claims\<close>

text \<open>
  C1. In the end-to-end scenario, with one catalog record \<open>scenario_song\<close> and one log
  record \<open>scenario_event\<close>, the run completes for every engine whose host is within a day
  of UTC and whatever the output root held before. It writes a Songs table of one row, an
  Artists table of one row, a Users table of one row, a Time table of one row whose year
  is \<open>2018\<close> and whose month is \<open>11\<close>, and a Songplays table of one row whose \<open>song_id\<close>
  and \<open>artist_id\<close> are null: the join condition as written finds no song, and the left
  join keeps the event.
\<close>

theorem scenario_tables:
  assumes "\<forall>t. \<bar>utcoffset spark t\<bar> \<le> 86400"
  shows "\<exists>out' s a u t f.
           main spark [scenario_song] [scenario_event] out = (out', None) \<and>
           songs_parquet out' = Some [s] \<and> artists_parquet out' = Some [a] \<and>
           users_parquet out' = Some [u] \<and>
           time_parquet out' = Some [t] \<and> t_year t = ''2018'' \<and> t_month t = ''11'' \<and>
           songplays_parquet out' = Some [f] \<and> f_song_id f = None \<and> f_artist_id f = None"
proof -
  from assms have "\<bar>utcoffset spark 1541121934\<bar> \<le> 86400" ..
  then obtain d where d: "fromtimestamp spark 1541121934796 = Inr d"
    and ym: "dt_year d = 2018" "dt_month d = 11"
    using fromtimestamp_scenario by blast
  define t where "t = \<lparr>t_ts = Some 1541121934796, t_datetime = d, t_hour = hour d,
                      t_year = date_format spark d ''y'',
                      t_month = date_format spark d ''M'',
                      t_week = date_format spark d ''w'',
                      t_day = date_format spark d ''d'',
                      t_weekday = date_format spark d ''F''\<rparr>"
  have tt: "time_table spark (nextsong [scenario_event]) = Inr [t]"
    by (simp add: nextsong_scenario time_table_def dropDuplicates_single scenario_event_columns
          time_columns_def get_timestamp_def d t_def)
  have t_cols: "t_year t = ''2018''" "t_month t = ''11''" "t_ts t = Some 1541121934796"
    by (simp_all add: t_def date_format_def ym dec_2018_11)
  have songs: "songs_table spark [scenario_song] = [songs_columns scenario_song]"
    by (simp add: songs_table_def dropDuplicates_single)
  have artists: "artists_table spark [scenario_song] = [artists_columns scenario_song]"
    by (simp add: artists_table_def dropDuplicates_single)
  have users: "users_table spark (nextsong [scenario_event]) = [users_columns scenario_event]"
    by (simp add: nextsong_scenario users_table_def dropDuplicates_single)
  have joined: "join_left (nextsong [scenario_event]) [songs_columns scenario_song] =
      [(scenario_event, None)]"
    by (simp add: nextsong_scenario join_left_def sql_eq_def scenario_event_columns
          scenario_song_columns)
  have "length (monotonically_increasing_id (partition_sizes spark) 0 (Suc 0)) = Suc 0"
    by (rule length_monotonically_increasing_id)
  then obtain i where ids: "monotonically_increasing_id (partition_sizes spark) 0 (Suc 0) = [i]"
    by (cases "monotonically_increasing_id (partition_sizes spark) 0 (Suc 0)") auto
  define p where "p = select_songplay (i, scenario_event, None)"
  have sps: "songplays spark (nextsong [scenario_event]) [songs_columns scenario_song] = [p]"
    by (simp add: songplays_def songplays_all_columns_def joined ids p_def)
  have p_cols: "sp_start_time p = Some 1541121934796" "sp_song_id p = None" "sp_artist_id p = None"
    by (simp_all add: p_def select_songplay_def scenario_event_columns)
  define f where "f = select_songplays_row p t"
  have tab: "songplays_table [p] [t] = [f]"
    by (simp add: songplays_table_def sql_eq_def p_cols t_cols f_def)
  have f_cols: "f_song_id f = None" "f_artist_id f = None"
    by (simp_all add: f_def select_songplays_row_def p_cols)
  let ?out' = "out\<lparr>songs_parquet := Some [songs_columns scenario_song],
               artists_parquet := Some [artists_columns scenario_song],
               users_parquet := Some [users_columns scenario_event],
               time_parquet := Some [t],
               songplays_parquet := Some [f]\<rparr>"
  have "main spark [scenario_song] [scenario_event] out = (?out', None)"
    unfolding main_success [OF tt] songs artists users sps tab ..
  moreover have "songs_parquet ?out' = Some [songs_columns scenario_song]"
    "artists_parquet ?out' = Some [artists_columns scenario_song]"
    "users_parquet ?out' = Some [users_columns scenario_event]"
    "time_parquet ?out' = Some [t]" "songplays_parquet ?out' = Some [f]"
    by simp_all
  ultimately show ?thesis
    using t_cols(1,2) f_cols by blast
qed

text \<open>
  The specification's scenario expects a Songplays table without rows. The table has one
  row.
\<close>

theorem scenario_songplays_counterexample:
  "map_option length
     (songplays_parquet (fst (main first_seen [scenario_song] [scenario_event] empty_store))) = Some 1"
  by code_simp

text \<open>The engine \<open>first_seen\<close> runs in UTC, and the scenario gives the five tables.\<close>

theorem scenario_tables_witness:
  "(\<forall>t. \<bar>utcoffset first_seen t\<bar> \<le> 86400) \<and>
   (\<exists>out' s a u t f.
      main first_seen [scenario_song] [scenario_event] empty_store = (out', None) \<and>
      songs_parquet out' = Some [s] \<and> artists_parquet out' = Some [a] \<and>
      users_parquet out' = Some [u] \<and>
      time_parquet out' = Some [t] \<and> t_year t = ''2018'' \<and> t_month t = ''11'' \<and>
      songplays_parquet out' = Some [f] \<and> f_song_id f = None \<and> f_artist_id f = None)"
proof -
  have h: "\<forall>t. \<bar>utcoffset first_seen t\<bar> \<le> 86400"
    by (simp add: first_seen_def)
  from h scenario_tables [OF h, of empty_store] show ?thesis by (rule conjI)
qed

text \<open>
  C2. The Songplays assembly joins the play events to the Songs table stored in the output
  root with the condition \<^verbatim>\<open>song == song_id\<close>: the joined rows are exactly the pairs of a
  play event and a song whose \<open>song_id\<close> is the event's \<open>song\<close>, and every play event
  without such a song once, with no song. In a run that completes, every play event
  without a match is in the Songplays table with null \<open>song_id\<close> and \<open>artist_id\<close>.
\<close>

theorem left_join_on_song_id:
  assumes "snd (process_log_data spark log_data out) = None"
  shows "\<exists>song_df tab.
           songs_parquet out = Some song_df \<and>
           songplays_parquet (fst (process_log_data spark log_data out)) = Some tab \<and>
           set (join_left (nextsong log_data) song_df) =
             {(l, Some s) |l s. l \<in> set (nextsong log_data) \<and> s \<in> set song_df \<and>
                                song l \<noteq> None \<and> song l = s_song_id s}
             \<union> {(l, None) |l. l \<in> set (nextsong log_data) \<and>
                              \<not> (\<exists>s\<in>set song_df. song l \<noteq> None \<and> song l = s_song_id s)} \<and>
           (\<forall>l\<in>set (nextsong log_data).
              \<not> (\<exists>s\<in>set song_df. song l \<noteq> None \<and> song l = s_song_id s) \<longrightarrow>
              (\<exists>f\<in>set tab. f_start_time f = ts l \<and> f_user_id f = userId l \<and>
                 f_level f = level l \<and> f_session_id f = sessionId l \<and>
                 f_location f = location l \<and> f_user_agent f = userAgent l \<and>
                 f_song_id f = None \<and> f_artist_id f = None))"
proof -
  from assms obtain tt song_df tsl where
    sd: "songs_parquet out = Some song_df"
    and tab: "songplays_parquet (fst (process_log_data spark log_data out)) =
       Some (songplays_table (songplays spark (nextsong log_data) song_df) tt)"
    and eq: "songplays_table (songplays spark (nextsong log_data) song_df) tt =
       map2 select_songplays_row (songplays spark (nextsong log_data) song_df) tsl"
    and len: "length tsl = length (songplays spark (nextsong log_data) song_df)"
    by (rule process_log_data_join)
  let ?df = "nextsong log_data"
  let ?tab = "songplays_table (songplays spark ?df song_df) tt"
  let ?cols = "\<lambda>f. (f_start_time f, f_user_id f, f_level f, f_session_id f,
              f_location f, f_user_agent f, f_song_id f, f_artist_id f)"
  have join: "set (join_left ?df song_df) =
             {(l, Some s) |l s. l \<in> set ?df \<and> s \<in> set song_df \<and>
                                song l \<noteq> None \<and> song l = s_song_id s}
             \<union> {(l, None) |l. l \<in> set ?df \<and>
                              \<not> (\<exists>s\<in>set song_df. song l \<noteq> None \<and> song l = s_song_id s)}"
    unfolding set_join_left sql_eq_iff by blast
  have cols: "map ?cols ?tab =
      map (\<lambda>(l, s). (ts l, userId l, level l, sessionId l, location l, userAgent l,
                   (case s of None \<Rightarrow> None | Some r \<Rightarrow> s_song_id r),
                   (case s of None \<Rightarrow> None | Some r \<Rightarrow> s_artist_id r)))
       (join_left ?df song_df)"
  proof -
    have "map (\<lambda>f. (f_songplay_id f, f_start_time f, f_user_id f, f_level f, f_session_id f,
              f_location f, f_user_agent f, f_song_id f, f_artist_id f)) ?tab =
         map (\<lambda>p. (sp_songplay_id p, sp_start_time p, sp_user_id p, sp_level p, sp_session_id p,
              sp_location p, sp_user_agent p, sp_song_id p, sp_artist_id p))
           (songplays spark ?df song_df)"
      unfolding eq using len by (rule select_songplays_row_columns)
    then have "map (snd \<circ> (\<lambda>f. (f_songplay_id f, f_start_time f, f_user_id f, f_level f, f_session_id f,
              f_location f, f_user_agent f, f_song_id f, f_artist_id f))) ?tab =
         map (snd \<circ> (\<lambda>p. (sp_songplay_id p, sp_start_time p, sp_user_id p, sp_level p, sp_session_id p,
              sp_location p, sp_user_agent p, sp_song_id p, sp_artist_id p)))
           (songplays spark ?df song_df)"
      by (simp only: map_map [symmetric])
    then have "map ?cols ?tab = 
         map (\<lambda>p. (sp_start_time p, sp_user_id p, sp_level p, sp_session_id p,
              sp_location p, sp_user_agent p, sp_song_id p, sp_artist_id p))
           (songplays spark ?df song_df)"
      by (simp add: comp_def)
    then show ?thesis by (simp only: songplays_columns)
  qed
  have kept: "\<exists>f\<in>set ?tab. f_start_time f = ts l \<and> f_user_id f = userId l \<and>
                 f_level f = level l \<and> f_session_id f = sessionId l \<and>
                 f_location f = location l \<and> f_user_agent f = userAgent l \<and>
                 f_song_id f = None \<and> f_artist_id f = None"
    if l: "l \<in> set ?df" and no: "\<not> (\<exists>s\<in>set song_df. song l \<noteq> None \<and> song l = s_song_id s)" for l
  proof -
    from l no have "(l, None) \<in> set (join_left ?df song_df)"
      unfolding join by blast
    then have "(ts l, userId l, level l, sessionId l, location l, userAgent l, None, None)
        \<in> set (map (\<lambda>(l, s). (ts l, userId l, level l, sessionId l, location l, userAgent l,
                   (case s of None \<Rightarrow> None | Some r \<Rightarrow> s_song_id r),
                   (case s of None \<Rightarrow> None | Some r \<Rightarrow> s_artist_id r)))
       (join_left ?df song_df))"
      by force
    then have "(ts l, userId l, level l, sessionId l, location l, userAgent l, None, None)
        \<in> set (map ?cols ?tab)"
      by (simp only: cols)
    then show ?thesis by auto
  qed
  from sd tab join kept show ?thesis by blast
qed

text \<open>On \<open>sample_log\<close> the event of the scenario matches no song and is kept.\<close>

theorem left_join_on_song_id_witness:
  "snd (process_log_data first_seen sample_log scenario_store) = None \<and>
   scenario_event \<in> set (nextsong sample_log) \<and>
   filter (\<lambda>s. sql_eq (song scenario_event) (s_song_id s)) [songs_columns scenario_song] = [] \<and>
   (\<exists>tab. songplays_parquet (fst (process_log_data first_seen sample_log scenario_store)) = Some tab \<and>
      list_ex (\<lambda>f. f_start_time f = Some 1541121934796 \<and> f_user_id f = Some 8 \<and>
                    f_song_id f = None \<and> f_artist_id f = None) tab)"
proof -
  have l: "scenario_event \<in> set (nextsong sample_log)"
    by (simp add: nextsong_sample)
  then have none: "filter (\<lambda>s. sql_eq (song scenario_event) (s_song_id s))
      [songs_columns scenario_song] = []"
    by (rule sample_no_match)
  have no: "\<not> (\<exists>s\<in>set [songs_columns scenario_song].
        song scenario_event \<noteq> None \<and> song scenario_event = s_song_id s)"
    by (simp add: scenario_event_columns scenario_song_columns)
  from left_join_on_song_id [OF sample_run] obtain song_df tab where
    sd: "songs_parquet scenario_store = Some song_df"
    and tab: "songplays_parquet (fst (process_log_data first_seen sample_log scenario_store)) = Some tab"
    and kept: "\<forall>l\<in>set (nextsong sample_log).
              \<not> (\<exists>s\<in>set song_df. song l \<noteq> None \<and> song l = s_song_id s) \<longrightarrow>
              (\<exists>f\<in>set tab. f_start_time f = ts l \<and> f_user_id f = userId l \<and>
                 f_level f = level l \<and> f_session_id f = sessionId l \<and>
                 f_location f = location l \<and> f_user_agent f = userAgent l \<and>
                 f_song_id f = None \<and> f_artist_id f = None)"
    by iprover
  from sd have "song_df = [songs_columns scenario_song]"
    by (simp add: scenario_store_songs)
  with kept l no have "\<exists>f\<in>set tab. f_start_time f = ts scenario_event \<and>
      f_user_id f = userId scenario_event \<and> f_song_id f = None \<and> f_artist_id f = None"
    by blast
  then have "list_ex (\<lambda>f. f_start_time f = Some 1541121934796 \<and> f_user_id f = Some 8 \<and>
         f_song_id f = None \<and> f_artist_id f = None) tab"
    by (simp only: scenario_event_columns list_ex_iff)
  with sample_run l none tab show ?thesis by simp
qed

text \<open>
  C3. In a run that completes, every play event has as many rows in the
  Songplays table as there are rows of the Songs table whose \<open>song_id\<close> is its \<open>song\<close>, and
  one row when there is none. When no play event matches more than one row of the Songs
  table, the Songplays table has exactly one row per play event, in the events' order:
  neither join drops or duplicates an event.
\<close>

theorem songplays_rows_per_event:
  assumes "snd (process_log_data spark log_data out) = None"
  shows "\<exists>song_df tab.
           songs_parquet out = Some song_df \<and>
           songplays_parquet (fst (process_log_data spark log_data out)) = Some tab \<and>
           length tab =
             (\<Sum>l\<leftarrow>nextsong log_data.
                max 1 (length (filter (\<lambda>s. sql_eq (song l) (s_song_id s)) song_df))) \<and>
           ((\<forall>l\<in>set (nextsong log_data).
               length (filter (\<lambda>s. sql_eq (song l) (s_song_id s)) song_df) \<le> 1) \<longrightarrow>
            map (\<lambda>f. (f_start_time f, f_user_id f, f_level f, f_session_id f, f_location f,
                       f_user_agent f)) tab =
            map (\<lambda>l. (ts l, userId l, level l, sessionId l, location l, userAgent l))
                (nextsong log_data))"
proof -
  let ?df = "nextsong log_data"
  from assms obtain tt song_df where
    sd: "songs_parquet out = Some song_df"
    and tab: "songplays_parquet (fst (process_log_data spark log_data out)) =
       Some (songplays_table (songplays spark ?df song_df) tt)"
    and cols: "map (\<lambda>f. (f_start_time f, f_user_id f, f_level f, f_session_id f,
              f_location f, f_user_agent f, f_song_id f, f_artist_id f))
         (songplays_table (songplays spark ?df song_df) tt) =
     map (\<lambda>(l, s). (ts l, userId l, level l, sessionId l, location l, userAgent l,
                   (case s of None \<Rightarrow> None | Some r \<Rightarrow> s_song_id r),
                   (case s of None \<Rightarrow> None | Some r \<Rightarrow> s_artist_id r)))
         (join_left ?df song_df)"
    by (rule process_log_data_columns)
  let ?tab = "songplays_table (songplays spark ?df song_df) tt"
  from cols have "length ?tab = length (join_left ?df song_df)"
    by (rule map_eq_imp_length_eq)
  then have n: "length ?tab =
      (\<Sum>l\<leftarrow>?df. max 1 (length (filter (\<lambda>s. sql_eq (song l) (s_song_id s)) song_df)))"
    by (simp only: length_join_left)
  have one: "map (\<lambda>f. (f_start_time f, f_user_id f, f_level f, f_session_id f, f_location f,
                       f_user_agent f)) ?tab =
            map (\<lambda>l. (ts l, userId l, level l, sessionId l, location l, userAgent l)) ?df"
    if u: "\<forall>l\<in>set ?df. length (filter (\<lambda>s. sql_eq (song l) (s_song_id s)) song_df) \<le> 1"
  proof -
    from cols have "map ((\<lambda>(a, b, c, d, e, f, g). (a, b, c, d, e, f)) \<circ>
               (\<lambda>f. (f_start_time f, f_user_id f, f_level f, f_session_id f,
              f_location f, f_user_agent f, f_song_id f, f_artist_id f))) ?tab =
      map ((\<lambda>(a, b, c, d, e, f, g). (a, b, c, d, e, f)) \<circ>
              (\<lambda>(l, s). (ts l, userId l, level l, sessionId l, location l, userAgent l,
                   (case s of None \<Rightarrow> None | Some r \<Rightarrow> s_song_id r),
                   (case s of None \<Rightarrow> None | Some r \<Rightarrow> s_artist_id r))))
         (join_left ?df song_df)"
      by (simp only: map_map [symmetric])
    then have "map (\<lambda>f. (f_start_time f, f_user_id f, f_level f, f_session_id f, f_location f,
                       f_user_agent f)) ?tab =
       map ((\<lambda>l. (ts l, userId l, level l, sessionId l, location l, userAgent l)) \<circ> fst)
         (join_left ?df song_df)"
      by (simp add: comp_def case_prod_beta)
    also have "\<dots> = map (\<lambda>l. (ts l, userId l, level l, sessionId l, location l, userAgent l))
                       (map fst (join_left ?df song_df))"
      by (simp only: map_map)
    finally show ?thesis
      by (simp only: map_fst_join_left [OF u])
  qed
  from sd tab n one show ?thesis by blast
qed

text \<open>
  One row per play event for every input does not hold: two rows of the Songs table may
  share a \<open>song_id\<close>, as its key is the pair with \<open>artist_id\<close>, and a play event whose
  \<open>song\<close> is that \<open>song_id\<close> then has two rows.
\<close>

theorem songplays_duplicated_counterexample:
  "length (nextsong [scenario_event]) = 1 \<and>
   map_option length
     (songplays_parquet (fst (main first_seen cover_catalog [scenario_event] empty_store))) = Some 2"
  by code_simp

text \<open>On \<open>sample_log\<close> no event matches a song, and the two play events give two rows.\<close>

theorem songplays_rows_per_event_witness:
  "snd (process_log_data first_seen sample_log scenario_store) = None \<and>
   list_all (\<lambda>l. length (filter (\<lambda>s. sql_eq (song l) (s_song_id s))
                            [songs_columns scenario_song]) \<le> 1) (nextsong sample_log) \<and>
   (\<exists>tab. songplays_parquet (fst (process_log_data first_seen sample_log scenario_store)) = Some tab \<and>
      length tab = 2 \<and>
      map (\<lambda>f. (f_start_time f, f_user_id f, f_level f, f_session_id f, f_location f,
                 f_user_agent f)) tab =
        [(Some 1541121934796, Some 8, None, None, None, None),
         (Some 1541726734796, Some 8, None, None, None, None)])"
proof -
  have u: "\<forall>l\<in>set (nextsong sample_log).
      length (filter (\<lambda>s. sql_eq (song l) (s_song_id s)) [songs_columns scenario_song]) \<le> 1"
    by (simp add: sample_no_match)
  from songplays_rows_per_event [OF sample_run] obtain song_df tab where
    sd: "songs_parquet scenario_store = Some song_df"
    and tab: "songplays_parquet (fst (process_log_data first_seen sample_log scenario_store)) = Some tab"
    and n: "length tab =
             (\<Sum>l\<leftarrow>nextsong sample_log.
                max 1 (length (filter (\<lambda>s. sql_eq (song l) (s_song_id s)) song_df)))"
    and one: "(\<forall>l\<in>set (nextsong sample_log).
               length (filter (\<lambda>s. sql_eq (song l) (s_song_id s)) song_df) \<le> 1) \<longrightarrow>
            map (\<lambda>f. (f_start_time f, f_user_id f, f_level f, f_session_id f, f_location f,
                       f_user_agent f)) tab =
            map (\<lambda>l. (ts l, userId l, level l, sessionId l, location l, userAgent l))
                (nextsong sample_log)"
    by iprover
  from sd have song_df: "song_df = [songs_columns scenario_song]"
    by (simp add: scenario_store_songs)
  from one u have cols: "map (\<lambda>f. (f_start_time f, f_user_id f, f_level f, f_session_id f, f_location f,
                       f_user_agent f)) tab =
        [(Some 1541121934796, Some 8, None, None, None, None),
         (Some 1541726734796, Some 8, None, None, None, None)]"
    unfolding song_df sample_events by blast
  then have "length tab = 2"
    by (auto dest: map_eq_imp_length_eq)
  with cols sample_run u tab show ?thesis by (simp add: list_all_iff)
qed

text \<open>
  C4. The Time table has one row per distinct \<^verbatim>\<open>ts\<close> of the play events (lemma
  \<open>time_table_one_row_per_ts\<close>), built after the duplicates are dropped, and the columns
  of a row are derived from its local timestamp (lemma \<open>time_columns_Inr\<close>). The column
  \<^verbatim>\<open>weekday\<close>, however, is formatted with pattern letter \<^verbatim>\<open>F\<close>, the day of week in month,
  and is not a function of the day of the week. The three events below are on Friday 2,
  Friday 9 and Saturday 3 November 2018 in UTC (day 5, 5 and 6 of a week that starts on
  Sunday with 0): the column holds 1, 2 and 1.
\<close>

theorem weekday_column_is_day_of_week_in_month:
  "map_sum id (map t_ts) (time_table first_seen (nextsong [scenario_event, week_later, day_later]))
     = Inr [Some 1541121934796, Some 1541726734796, Some 1541208334796] \<and>
   map_sum id (map t_day) (time_table first_seen (nextsong [scenario_event, week_later, day_later]))
     = Inr [''2'', ''9'', ''3''] \<and>
   map_sum id (map t_weekday) (time_table first_seen (nextsong [scenario_event, week_later, day_later]))
     = Inr [''1'', ''2'', ''1''] \<and>
   (days_from_civil 2018 11 2 + 4) mod 7 = 5 \<and>
   (days_from_civil 2018 11 9 + 4) mod 7 = 5 \<and>
   (days_from_civil 2018 11 3 + 4) mod 7 = 6"
  by code_simp

text \<open>
  C5. In a run that completes, every row of the Songplays table has a \<open>start_time\<close> that
  is not null and is the \<^verbatim>\<open>ts\<close> of a row of the Time table, whose year and month it
  carries, and it has the columns of a play event of the log with that \<^verbatim>\<open>ts\<close>. The inner
  join returns the pairs that satisfy its condition and nothing else, so a row of
  \<open>songplays\<close> without a match in the Time table is in no row of the result.
\<close>

theorem songplays_start_time_in_time:
  assumes "snd (process_log_data spark log_data out) = None"
  shows "\<exists>song_df tt tab.
           songs_parquet out = Some song_df \<and>
           time_parquet (fst (process_log_data spark log_data out)) = Some tt \<and>
           songplays_parquet (fst (process_log_data spark log_data out)) = Some tab \<and>
           tab = songplays_table (songplays spark (nextsong log_data) song_df) tt \<and>
           (\<forall>f\<in>set tab.
              f_start_time f \<noteq> None \<and>
              (\<exists>t\<in>set tt. t_ts t = f_start_time f \<and> t_year t = f_year f \<and> t_month t = f_month f) \<and>
              (\<exists>l\<in>set log_data. page l = Some ''NextSong'' \<and> ts l = f_start_time f \<and>
                 userId l = f_user_id f \<and> level l = f_level f \<and> sessionId l = f_session_id f \<and>
                 location l = f_location f \<and> userAgent l = f_user_agent f)) \<and>
           (\<forall>sps tt'. set (songplays_table sps tt') =
              {select_songplays_row p t |p t.
                 p \<in> set sps \<and> t \<in> set tt' \<and> sp_start_time p \<noteq> None \<and> sp_start_time p = t_ts t})"
proof -
  let ?df = "nextsong log_data"
  from assms obtain tt song_df where
    sd: "songs_parquet out = Some song_df"
    and tt: "time_parquet (fst (process_log_data spark log_data out)) = Some tt"
    and tab: "songplays_parquet (fst (process_log_data spark log_data out)) =
       Some (songplays_table (songplays spark ?df song_df) tt)"
    by (rule process_log_data_columns)
  let ?tab = "songplays_table (songplays spark ?df song_df) tt"
  have join: "set (songplays_table sps tt') =
              {select_songplays_row p t |p t.
                 p \<in> set sps \<and> t \<in> set tt' \<and> sp_start_time p \<noteq> None \<and> sp_start_time p = t_ts t}"
    for sps tt'
    unfolding set_songplays_table sql_eq_iff ..
  have row: "f_start_time f \<noteq> None \<and>
              (\<exists>t\<in>set tt. t_ts t = f_start_time f \<and> t_year t = f_year f \<and> t_month t = f_month f) \<and>
              (\<exists>l\<in>set log_data. page l = Some ''NextSong'' \<and> ts l = f_start_time f \<and>
                 userId l = f_user_id f \<and> level l = f_level f \<and> sessionId l = f_session_id f \<and>
                 location l = f_location f \<and> userAgent l = f_user_agent f)"
    if "f \<in> set ?tab" for f
  proof -
    from that obtain p t where p: "p \<in> set (songplays spark ?df song_df)" and t: "t \<in> set tt"
      and m: "sp_start_time p \<noteq> None" "sp_start_time p = t_ts t"
      and f: "f = select_songplays_row p t"
      unfolding join by blast
    from p obtain l where l: "l \<in> set ?df" "sp_start_time p = ts l" "sp_user_id p = userId l"
       "sp_level p = level l" "sp_session_id p = sessionId l" "sp_location p = location l"
       "sp_user_agent p = userAgent l"
      using songplays_start_time by blast
    from l(1) have "l \<in> set log_data" "page l = Some ''NextSong''"
      by (simp_all add: set_nextsong)
    with l t m f show ?thesis
      by (auto simp: select_songplays_row_def)
  qed
  from sd tt tab row join show ?thesis by blast
qed

text \<open>On \<open>sample_log\<close> both rows of the Songplays table have their time in the Time table.\<close>

theorem songplays_start_time_in_time_witness:
  "snd (process_log_data first_seen sample_log scenario_store) = None \<and>
   (\<exists>tt tab.
      time_parquet (fst (process_log_data first_seen sample_log scenario_store)) = Some tt \<and>
      songplays_parquet (fst (process_log_data first_seen sample_log scenario_store)) = Some tab \<and>
      length tab = 2 \<and>
      list_all (\<lambda>f. f_start_time f \<noteq> None \<and> f_start_time f \<in> t_ts ` set tt \<and>
                     f_start_time f \<in> ts ` set (nextsong sample_log)) tab)"
proof -
  from songplays_start_time_in_time [OF sample_run] obtain tt tab where
    tt: "time_parquet (fst (process_log_data first_seen sample_log scenario_store)) = Some tt"
    and tab: "songplays_parquet (fst (process_log_data first_seen sample_log scenario_store)) = Some tab"
    and rows: "\<forall>f\<in>set tab.
              f_start_time f \<noteq> None \<and>
              (\<exists>t\<in>set tt. t_ts t = f_start_time f \<and> t_year t = f_year f \<and> t_month t = f_month f) \<and>
              (\<exists>l\<in>set sample_log. page l = Some ''NextSong'' \<and> ts l = f_start_time f \<and>
                 userId l = f_user_id f \<and> level l = f_level f \<and> sessionId l = f_session_id f \<and>
                 location l = f_location f \<and> userAgent l = f_user_agent f)"
    by iprover
  from tab sample_songplays_length have n: "length tab = 2" by simp
  have "f_start_time f \<noteq> None \<and> f_start_time f \<in> t_ts ` set tt \<and>
        f_start_time f \<in> ts ` set (nextsong sample_log)" if "f \<in> set tab" for f
  proof -
    from rows that obtain t l where nn: "f_start_time f \<noteq> None"
      and t: "t \<in> set tt" "t_ts t = f_start_time f"
      and l: "l \<in> set sample_log" "page l = Some ''NextSong''" "ts l = f_start_time f"
      by blast
    from t(1) have "t_ts t \<in> t_ts ` set tt" by (rule imageI)
    with t(2) have a: "f_start_time f \<in> t_ts ` set tt" by simp
    from l(1,2) have "l \<in> set (nextsong sample_log)" by (simp add: set_nextsong)
    then have "ts l \<in> ts ` set (nextsong sample_log)" by (rule imageI)
    with l(3) have "f_start_time f \<in> ts ` set (nextsong sample_log)" by simp
    with nn a show ?thesis by simp
  qed
  then have "list_all (\<lambda>f. f_start_time f \<noteq> None \<and> f_start_time f \<in> t_ts ` set tt \<and>
                     f_start_time f \<in> ts ` set (nextsong sample_log)) tab"
    by (simp only: list_all_iff) blast
  with sample_run tt tab n show ?thesis by simp
qed

text \<open>
  C6. The Songs table is the projection of the catalog to five columns with one row kept
  per pair of \<open>song_id\<close> and \<open>artist_id\<close>: no two rows have the same pair, every pair of
  the catalog has its row, every row is the projection of a catalog record, and for every
  catalog record there is a choice of the engine that retains it.
\<close>

theorem songs_unique_keys:
  "songs_parquet (process_song_data spark song_data out) = Some (songs_table spark song_data) \<and>
   distinct (map (\<lambda>r. (s_song_id r, s_artist_id r)) (songs_table spark song_data)) \<and>
   (\<lambda>r. (s_song_id r, s_artist_id r)) ` set (songs_table spark song_data) =
     (\<lambda>c. (song_id c, artist_id c)) ` set song_data \<and>
   set (songs_table spark song_data) \<subseteq> songs_columns ` set song_data \<and>
   (\<forall>c\<in>set song_data.
      \<exists>pick. songs_columns c \<in> set (songs_table (spark\<lparr>pick_songs := pick\<rparr>) song_data))"
proof -
  let ?key = "\<lambda>r. (s_song_id r, s_artist_id r)"
  have w: "songs_parquet (process_song_data spark song_data out) = Some (songs_table spark song_data)"
    by (simp add: process_song_data_def)
  have d: "distinct (map ?key (songs_table spark song_data))"
    unfolding songs_table_def by (rule dropDuplicates_distinct)
  have "?key ` set (songs_table spark song_data) = ?key ` set (map songs_columns song_data)"
    unfolding songs_table_def by (rule dropDuplicates_key_set)
  also have "\<dots> = (\<lambda>c. (song_id c, artist_id c)) ` set song_data"
    by (simp add: image_image songs_columns_def)
  finally have k: "?key ` set (songs_table spark song_data) =
     (\<lambda>c. (song_id c, artist_id c)) ` set song_data" .
  have "set (songs_table spark song_data) \<subseteq> set (map songs_columns song_data)"
    unfolding songs_table_def by (rule dropDuplicates_subset)
  then have s: "set (songs_table spark song_data) \<subseteq> songs_columns ` set song_data"
    by (simp only: set_map)
  have a: "\<exists>pick. songs_columns c \<in> set (songs_table (spark\<lparr>pick_songs := pick\<rparr>) song_data)"
    if "c \<in> set song_data" for c
  proof -
    from that have "songs_columns c \<in> set (map songs_columns song_data)" by simp
    from dropDuplicates_any [OF this]
    obtain pick where "songs_columns c \<in> set (dropDuplicates pick ?key (map songs_columns song_data))" ..
    then have kept: "songs_columns c \<in> set (songs_table (spark\<lparr>pick_songs := pick\<rparr>) song_data)"
      by (simp add: songs_table_def)
    show ?thesis
    proof (rule exI)
      show "songs_columns c \<in> set (songs_table (spark\<lparr>pick_songs := pick\<rparr>) song_data)"
        by (fact kept)
    qed
  qed
  show ?thesis by (intro conjI ballI a w d k s)
qed

text \<open>Two records with the same key: one row is kept, and it can be the second record.\<close>

theorem songs_unique_keys_witness:
  "scenario_song\<lparr>title := Some ''Song B''\<rparr> \<in> set duplicate_catalog \<and>
   length duplicate_catalog = 2 \<and>
   distinct (map (\<lambda>r. (s_song_id r, s_artist_id r)) (songs_table first_seen duplicate_catalog)) \<and>
   (\<lambda>r. (s_song_id r, s_artist_id r)) ` set (songs_table first_seen duplicate_catalog) =
     {(Some ''S1'', Some ''A1'')} \<and>
   (\<exists>pick. songs_columns (scenario_song\<lparr>title := Some ''Song B''\<rparr>)
             \<in> set (songs_table (first_seen\<lparr>pick_songs := pick\<rparr>) duplicate_catalog))"
proof -
  have n: "length duplicate_catalog = 2" by (simp add: duplicate_catalog_def)
  have k: "(\<lambda>c. (song_id c, artist_id c)) ` set duplicate_catalog = {(Some ''S1'', Some ''A1'')}"
    by (simp add: duplicate_catalog_def scenario_song_def null_song_def)
  note t = songs_unique_keys [of first_seen duplicate_catalog empty_store]
  from t have d: "distinct (map (\<lambda>r. (s_song_id r, s_artist_id r)) (songs_table first_seen duplicate_catalog))"
    by iprover
  from t have "(\<lambda>r. (s_song_id r, s_artist_id r)) ` set (songs_table first_seen duplicate_catalog) =
     (\<lambda>c. (song_id c, artist_id c)) ` set duplicate_catalog"
    by iprover
  then have s: "(\<lambda>r. (s_song_id r, s_artist_id r)) ` set (songs_table first_seen duplicate_catalog) =
     {(Some ''S1'', Some ''A1'')}"
    by (simp only: k)
  from t have "\<forall>c\<in>set duplicate_catalog.
      \<exists>pick. songs_columns c \<in> set (songs_table (first_seen\<lparr>pick_songs := pick\<rparr>) duplicate_catalog)"
    by iprover
  from this duplicate_catalog_member
  have a: "\<exists>pick. songs_columns (scenario_song\<lparr>title := Some ''Song B''\<rparr>)
             \<in> set (songs_table (first_seen\<lparr>pick_songs := pick\<rparr>) duplicate_catalog)"
    by (rule bspec)
  from duplicate_catalog_member n d s a show ?thesis by iprover
qed

text \<open>
  C7. The Users table is written from the play events alone and always, also by a run
  that ends with an exception later. It has one row per \<open>userId\<close> of the play events:
  no two rows have the same \<open>userId\<close>, the \<open>userId\<close>s of its rows are those of the play
  events, and every row is the projection of a play event.
\<close>

theorem users_one_row_per_userId:
  "users_parquet (fst (process_log_data spark log_data out)) =
     Some (users_table spark (nextsong log_data)) \<and>
   distinct (map u_userId (users_table spark (nextsong log_data))) \<and>
   u_userId ` set (users_table spark (nextsong log_data)) =
     userId ` {l \<in> set log_data. page l = Some ''NextSong''} \<and>
   set (users_table spark (nextsong log_data)) \<subseteq>
     users_columns ` {l \<in> set log_data. page l = Some ''NextSong''}"
proof -
  have "u_userId ` set (users_table spark (nextsong log_data)) =
          u_userId ` set (map users_columns (nextsong log_data))"
    unfolding users_table_def by (rule dropDuplicates_key_set)
  also have "\<dots> = userId ` set (nextsong log_data)"
    by (auto simp: users_columns_def image_iff)
  finally have keys: "u_userId ` set (users_table spark (nextsong log_data)) =
     userId ` {l \<in> set log_data. page l = Some ''NextSong''}"
    by (simp only: set_nextsong)
  have "set (users_table spark (nextsong log_data)) \<subseteq> set (map users_columns (nextsong log_data))"
    unfolding users_table_def by (rule dropDuplicates_subset)
  then have rows: "set (users_table spark (nextsong log_data)) \<subseteq>
     users_columns ` {l \<in> set log_data. page l = Some ''NextSong''}"
    by (simp only: set_map set_nextsong)
  have "distinct (map u_userId (users_table spark (nextsong log_data)))"
    unfolding users_table_def by (rule dropDuplicates_distinct)
  with keys rows process_log_data_users show ?thesis by blast
qed

text \<open>On \<open>sample_log\<close> user 8 has two play events and one row; user 9 played nothing.\<close>

theorem users_one_row_per_userId_witness:
  "length (nextsong sample_log) = 2 \<and>
   users_parquet (fst (process_log_data first_seen sample_log scenario_store)) =
     Some (users_table first_seen (nextsong sample_log)) \<and>
   distinct (map u_userId (users_table first_seen (nextsong sample_log))) \<and>
   u_userId ` set (users_table first_seen (nextsong sample_log)) = {Some 8}"
proof -
  have "length (nextsong sample_log) = 2" by (simp add: nextsong_sample)
  with users_one_row_per_userId [of first_seen sample_log scenario_store]
  show ?thesis by (simp only: sample_userIds simp_thms)
qed

text \<open>
  C8. A run that completes replaces all five tables: for given choices of the
  engine its result is a function of the two inputs and does not depend on what the
  output root held before, so nothing accumulates over runs.
\<close>

theorem full_overwrite:
  assumes "snd (main spark song_data log_data out1) = None"
  shows "main spark song_data log_data out2 = main spark song_data log_data out1"
proof -
  from assms obtain tt where tt: "time_table spark (nextsong log_data) = Inr tt"
    unfolding main_def by (rule process_log_data_success)
  show ?thesis
    unfolding main_success [OF tt] by (intro arg_cong2 [where f = Pair] store_overwritten refl)
qed

text \<open>
  Two runs on the same inputs need not write the same tables: when the engine chooses
  differently, the row retained for a duplicated song differs, and so does the id of a
  Songplays row when the rows are partitioned differently.
\<close>

theorem rerun_counterexample:
  "songs_parquet (fst (main first_seen duplicate_catalog [scenario_event] empty_store)) \<noteq>
   songs_parquet (fst (main second_seen duplicate_catalog [scenario_event] empty_store)) \<and>
   songplays_parquet (fst (main first_seen [scenario_song] [scenario_event] empty_store)) \<noteq>
   songplays_parquet (fst (main repartitioned [scenario_song] [scenario_event] empty_store))"
  by code_simp

text \<open>The scenario run on the output of an earlier run and on an empty output root.\<close>

theorem full_overwrite_witness:
  "snd (main first_seen [scenario_song] [scenario_event] empty_store) = None \<and>
   main first_seen [scenario_song] [scenario_event]
     (fst (main first_seen cover_catalog sample_log empty_store)) =
   main first_seen [scenario_song] [scenario_event] empty_store"
  using scenario_run full_overwrite [OF scenario_run] by (rule conjI)

text \<open>
  C9. In a run that completes, every row of \<open>songplays\<close> has a \<open>start_time\<close> that is not
  null and is in the Time table, and the inner join returns one row for each of them, in
  order. (A play event with a null \<^verbatim>\<open>ts\<close> ends the run in the UDF when the Time table is
  written, before the join: lemmas \<open>time_table_not_null\<close> and \<open>process_log_data_failure\<close>.)
\<close>

theorem time_join_drops_nothing:
  assumes "snd (process_log_data spark log_data out) = None"
  shows "\<exists>song_df tt.
           songs_parquet out = Some song_df \<and>
           time_table spark (nextsong log_data) = Inr tt \<and>
           time_parquet (fst (process_log_data spark log_data out)) = Some tt \<and>
           songplays_parquet (fst (process_log_data spark log_data out)) =
             Some (songplays_table (songplays spark (nextsong log_data) song_df) tt) \<and>
           (\<forall>p\<in>set (songplays spark (nextsong log_data) song_df).
              sp_start_time p \<noteq> None \<and> sp_start_time p \<in> t_ts ` set tt) \<and>
           map f_songplay_id (songplays_table (songplays spark (nextsong log_data) song_df) tt) =
             map sp_songplay_id (songplays spark (nextsong log_data) song_df) \<and>
           length (songplays_table (songplays spark (nextsong log_data) song_df) tt) =
             length (songplays spark (nextsong log_data) song_df)"
proof -
  let ?df = "nextsong log_data"
  from assms obtain tt song_df tsl where
    t: "time_table spark ?df = Inr tt"
    and sd: "songs_parquet out = Some song_df"
    and tt: "time_parquet (fst (process_log_data spark log_data out)) = Some tt"
    and tab: "songplays_parquet (fst (process_log_data spark log_data out)) =
       Some (songplays_table (songplays spark ?df song_df) tt)"
    and eq: "songplays_table (songplays spark ?df song_df) tt =
       map2 select_songplays_row (songplays spark ?df song_df) tsl"
    and len: "length tsl = length (songplays spark ?df song_df)"
    and m: "\<forall>p\<in>set (songplays spark ?df song_df).
        sp_start_time p \<noteq> None \<and> sp_start_time p \<in> set (map t_ts tt)"
    by (rule process_log_data_join)
  have "map (\<lambda>f. (f_songplay_id f, f_start_time f, f_user_id f, f_level f, f_session_id f,
              f_location f, f_user_agent f, f_song_id f, f_artist_id f))
           (songplays_table (songplays spark ?df song_df) tt) =
         map (\<lambda>p. (sp_songplay_id p, sp_start_time p, sp_user_id p, sp_level p, sp_session_id p,
              sp_location p, sp_user_agent p, sp_song_id p, sp_artist_id p))
           (songplays spark ?df song_df)"
    unfolding eq using len by (rule select_songplays_row_columns)
  then have "map (fst \<circ> (\<lambda>f. (f_songplay_id f, f_start_time f, f_user_id f, f_level f, f_session_id f,
              f_location f, f_user_agent f, f_song_id f, f_artist_id f)))
           (songplays_table (songplays spark ?df song_df) tt) =
         map (fst \<circ> (\<lambda>p. (sp_songplay_id p, sp_start_time p, sp_user_id p, sp_level p, sp_session_id p,
              sp_location p, sp_user_agent p, sp_song_id p, sp_artist_id p)))
           (songplays spark ?df song_df)"
    by (simp only: map_map [symmetric])
  then have ids: "map f_songplay_id (songplays_table (songplays spark ?df song_df) tt) =
             map sp_songplay_id (songplays spark ?df song_df)"
    by (simp add: comp_def)
  then have "length (songplays_table (songplays spark ?df song_df) tt) =
             length (songplays spark ?df song_df)"
    by (rule map_eq_imp_length_eq)
  with t sd tt tab m ids show ?thesis by simp
qed

text \<open>On \<open>sample_log\<close> the two rows of \<open>songplays\<close> give the two rows of the table.\<close>

theorem time_join_drops_nothing_witness:
  "snd (process_log_data first_seen sample_log scenario_store) = None \<and>
   length (songplays first_seen (nextsong sample_log) [songs_columns scenario_song]) = 2 \<and>
   map_option length
     (songplays_parquet (fst (process_log_data first_seen sample_log scenario_store))) = Some 2"
proof -
  from time_join_drops_nothing [OF sample_run] obtain song_df tt where
    sd: "songs_parquet scenario_store = Some song_df"
    and tab: "songplays_parquet (fst (process_log_data first_seen sample_log scenario_store)) =
             Some (songplays_table (songplays first_seen (nextsong sample_log) song_df) tt)"
    and len: "length (songplays_table (songplays first_seen (nextsong sample_log) song_df) tt) =
             length (songplays first_seen (nextsong sample_log) song_df)"
    by iprover
  from sd have song_df: "song_df = [songs_columns scenario_song]"
    by (simp add: scenario_store_songs)
  from tab len sample_songplays_length
  have "length (songplays first_seen (nextsong sample_log) song_df) = 2" by simp
  with sample_run sample_songplays_length show ?thesis
    unfolding song_df by simp
qed

text \<open>
  C10. In a run that completes, the columns year, month, week, day and weekday of every
  row of the Time table are strings of decimal digits, the results of \<^verbatim>\<open>date_format\<close>,
  while hour is an integer; the year and month of a Songplays row are those strings of
  the matching row of the Time table.
\<close>

theorem time_columns_are_strings:
  assumes "snd (process_log_data spark log_data out) = None"
  shows "\<exists>tt tab.
           time_parquet (fst (process_log_data spark log_data out)) = Some tt \<and>
           songplays_parquet (fst (process_log_data spark log_data out)) = Some tab \<and>
           (\<forall>t\<in>set tt. \<exists>d. get_timestamp spark (t_ts t) = Inr d \<and>
              (t_hour t :: int) = dt_hour d \<and>
              (t_year t :: string) = dec (nat (dt_year d)) \<and>
              (t_month t :: string) = dec (nat (dt_month d)) \<and>
              (t_week t :: string) = dec (week_in_year spark d) \<and>
              (t_day t :: string) = dec (nat (dt_day d)) \<and>
              (t_weekday t :: string) = dec (nat ((dt_day d - 1) div 7 + 1)) \<and>
              set (t_year t @ t_month t @ t_week t @ t_day t @ t_weekday t) \<subseteq> set ''0123456789'') \<and>
           (\<forall>f\<in>set tab. \<exists>t\<in>set tt. t_ts t = f_start_time f \<and>
              (f_year f :: string) = t_year t \<and> (f_month f :: string) = t_month t)"
proof -
  let ?df = "nextsong log_data"
  from assms obtain tt song_df where
    t: "time_table spark ?df = Inr tt"
    and tt: "time_parquet (fst (process_log_data spark log_data out)) = Some tt"
    and tab: "songplays_parquet (fst (process_log_data spark log_data out)) =
       Some (songplays_table (songplays spark ?df song_df) tt)"
    by (rule process_log_data_join)
  have cols: "\<exists>d. get_timestamp spark (t_ts r) = Inr d \<and>
              t_hour r = dt_hour d \<and>
              t_year r = dec (nat (dt_year d)) \<and>
              t_month r = dec (nat (dt_month d)) \<and>
              t_week r = dec (week_in_year spark d) \<and>
              t_day r = dec (nat (dt_day d)) \<and>
              t_weekday r = dec (nat ((dt_day d - 1) div 7 + 1)) \<and>
              set (t_year r @ t_month r @ t_week r @ t_day r @ t_weekday r) \<subseteq> set ''0123456789''"
    if "r \<in> set tt" for r
  proof -
    from time_table_rows [OF t that] have c: "time_columns spark (t_ts r) = Inr r" .
    note f = time_columns_Inr [OF c]
    from f have "set (t_year r @ t_month r @ t_week r @ t_day r @ t_weekday r) \<subseteq> set ''0123456789''"
      using dec_digits by (simp only: set_append Un_subset_iff simp_thms)
    with f show ?thesis by blast
  qed
  have part: "\<exists>t\<in>set tt. t_ts t = f_start_time f \<and> f_year f = t_year t \<and> f_month f = t_month t"
    if "f \<in> set (songplays_table (songplays spark ?df song_df) tt)" for f
    using that by (auto simp: set_songplays_table sql_eq_iff select_songplays_row_def)
  from tt tab cols part show ?thesis by blast
qed

text \<open>On \<open>sample_log\<close> both tables have two rows with such columns.\<close>

theorem time_columns_are_strings_witness:
  "snd (process_log_data first_seen sample_log scenario_store) = None \<and>
   (\<exists>tt tab.
      time_parquet (fst (process_log_data first_seen sample_log scenario_store)) = Some tt \<and>
      songplays_parquet (fst (process_log_data first_seen sample_log scenario_store)) = Some tab \<and>
      length tt = 2 \<and> length tab = 2 \<and>
      list_all (\<lambda>t. set (t_year t @ t_month t @ t_week t @ t_day t @ t_weekday t)
                       \<subseteq> set ''0123456789'') tt \<and>
      list_all (\<lambda>f. (f_year f, f_month f) \<in> (\<lambda>t. (t_year t, t_month t)) ` set tt) tab)"
proof -
  from time_columns_are_strings [OF sample_run] obtain tt tab where
    tt: "time_parquet (fst (process_log_data first_seen sample_log scenario_store)) = Some tt"
    and tab: "songplays_parquet (fst (process_log_data first_seen sample_log scenario_store)) = Some tab"
    and cols: "\<forall>t\<in>set tt. \<exists>d. get_timestamp first_seen (t_ts t) = Inr d \<and>
              (t_hour t :: int) = dt_hour d \<and>
              (t_year t :: string) = dec (nat (dt_year d)) \<and>
              (t_month t :: string) = dec (nat (dt_month d)) \<and>
              (t_week t :: string) = dec (week_in_year first_seen d) \<and>
              (t_day t :: string) = dec (nat (dt_day d)) \<and>
              (t_weekday t :: string) = dec (nat ((dt_day d - 1) div 7 + 1)) \<and>
              set (t_year t @ t_month t @ t_week t @ t_day t @ t_weekday t) \<subseteq> set ''0123456789''"
    and part: "\<forall>f\<in>set tab. \<exists>t\<in>set tt. t_ts t = f_start_time f \<and>
              (f_year f :: string) = t_year t \<and> (f_month f :: string) = t_month t"
    by iprover
  from tt sample_time_length have n: "length tt = 2" by simp
  from tab sample_songplays_length have m: "length tab = 2" by simp
  from cols have c: "list_all (\<lambda>t. set (t_year t @ t_month t @ t_week t @ t_day t @ t_weekday t)
                       \<subseteq> set ''0123456789'') tt"
    by (simp only: list_all_iff) blast
  from part have p: "list_all (\<lambda>f. (f_year f, f_month f) \<in> (\<lambda>t. (t_year t, t_month t)) ` set tt) tab"
    by (simp only: list_all_iff) force
  from sample_run tt tab n m c p show ?thesis by simp
qed

end
